theory Spec2Isabelle
  imports Complex_Main "HOL-Library.Multiset"
begin

section \<open>Errors\<close>

text \<open>
  Every exception the program can raise is a value.  \<open>InvalidArgument\<close> is
  \<^verbatim>\<open>std::invalid_argument\<close> with its message (the constructors' own checks);
  the others are raised inside the tensor library: \<open>IndexError\<close> for an index
  outside its dimension, \<open>ShapeError\<close> for tensors whose sizes do not fit,
  \<open>NegativeDimension\<close> for a tensor created with a negative size and
  \<open>DropoutRange\<close> for a dropout layer whose probability is outside \<open>[0, 1]\<close>.
  Signed overflow of an \<^verbatim>\<open>int\<close> is undefined behaviour; the model stops with
  \<open>SignedOverflow\<close> there, so that nothing is said about such a run.
\<close>

datatype error =
    InvalidArgument string
  | IndexError
  | ShapeError
  | NegativeDimension
  | DropoutRange
  | SignedOverflow

definition ebind :: "error + 'a \<Rightarrow> ('a \<Rightarrow> error + 'b) \<Rightarrow> error + 'b" where
  "ebind m f = (case m of Inl e \<Rightarrow> Inl e | Inr x \<Rightarrow> f x)"

fun is_invalid_argument :: "error + 'a \<Rightarrow> bool" where
  "is_invalid_argument (Inl (InvalidArgument msg)) = True"
| "is_invalid_argument r = False"

section \<open>Tensors of rank two\<close>

text \<open>
  A \<^verbatim>\<open>torch::Tensor\<close> of rank two: its two sizes and its rows.  The sizes are
  kept beside the rows because a tensor with no row still has a width
  (\<^verbatim>\<open>messages.size(1)\<close> of a graph without edges).  The elements are taken
  from a semiring: the arithmetic is exact.
\<close>

record 'a tensor =
  size0 :: nat
  size1 :: nat
  data :: "'a list list"

definition wf_tensor :: "'a tensor \<Rightarrow> bool" where
  "wf_tensor t \<longleftrightarrow>
     length (data t) = size0 t \<and> list_all (\<lambda>r. length r = size1 t) (data t)"

text \<open>\<^verbatim>\<open>t.flip(0)\<close>: the rows in reverse order.\<close>

definition flip0 :: "'a tensor \<Rightarrow> 'a tensor" where
  "flip0 t = t\<lparr>data := rev (data t)\<rparr>"

text \<open>\<^verbatim>\<open>t[i]\<close> for a constant \<open>i\<close>: row \<open>i\<close>, a tensor of rank one.\<close>

definition select0 :: "'a tensor \<Rightarrow> nat \<Rightarrow> error + 'a list" where
  "select0 t i = (if i < size0 t then Inr (data t ! i) else Inl IndexError)"

text \<open>
  \<^verbatim>\<open>t.index_select(0, idx)\<close>: the rows named by \<open>idx\<close>, in the order of \<open>idx\<close>.
  An index below zero or beyond the last row is an error: nothing wraps.
\<close>

definition index_select0 :: "'a tensor \<Rightarrow> int list \<Rightarrow> error + 'a tensor" where
  "index_select0 t idx =
     (if list_all (\<lambda>i. 0 \<le> i \<and> i < int (size0 t)) idx
      then Inr \<lparr>size0 = length idx, size1 = size1 t,
                data = map (\<lambda>i. data t ! nat i) idx\<rparr>
      else Inl IndexError)"

text \<open>
  \<^verbatim>\<open>torch::cat(ts, -1)\<close>: the tensors side by side.  They must have the same
  number of rows.
\<close>

definition cat_last :: "'a tensor list \<Rightarrow> error + 'a tensor" where
  "cat_last ts =
     (case ts of
        [] \<Rightarrow> Inl ShapeError
      | t # rest \<Rightarrow>
          if list_all (\<lambda>u. size0 u = size0 t) rest
          then Inr \<lparr>size0 = size0 t, size1 = sum_list (map size1 ts),
                    data = map (\<lambda>i. concat (map (\<lambda>u. data u ! i) ts)) [0..<size0 t]\<rparr>
          else Inl ShapeError)"

text \<open>
  Broadcasting of one dimension: equal sizes, or one of them is 1.
\<close>

definition broadcast_dim :: "nat \<Rightarrow> nat \<Rightarrow> error + nat" where
  "broadcast_dim a b =
     (if a = b then Inr a else if a = 1 then Inr b else if b = 1 then Inr a
      else Inl ShapeError)"

definition bc_at :: "'a tensor \<Rightarrow> nat \<Rightarrow> nat \<Rightarrow> 'a" where
  "bc_at t i j =
     data t ! (if size0 t = 1 then 0 else i) ! (if size1 t = 1 then 0 else j)"

text \<open>\<^verbatim>\<open>a * b\<close>: the elementwise product of the two broadcast tensors.\<close>

definition mul :: "('a::semiring_0) tensor \<Rightarrow> 'a tensor \<Rightarrow> error + 'a tensor" where
  "mul a b =
     ebind (broadcast_dim (size0 a) (size0 b)) (\<lambda>r.
     ebind (broadcast_dim (size1 a) (size1 b)) (\<lambda>c.
       Inr \<lparr>size0 = r, size1 = c,
            data = map (\<lambda>i. map (\<lambda>j. bc_at a i j * bc_at b i j) [0..<c]) [0..<r]\<rparr>))"

text \<open>\<^verbatim>\<open>torch::zeros({r, c})\<close>; the first size is an \<^verbatim>\<open>int\<close> of the program.\<close>

definition zeros :: "int \<Rightarrow> nat \<Rightarrow> error + ('a::semiring_0) tensor" where
  "zeros r c =
     (if r < 0 then Inl NegativeDimension
      else Inr \<lparr>size0 = nat r, size1 = c, data = replicate (nat r) (replicate c 0)\<rparr>)"

text \<open>
  \<^verbatim>\<open>self.index_add_(0, idx, src)\<close>: for every position \<open>e\<close> of \<open>idx\<close>, in order,
  row \<open>e\<close> of \<open>src\<close> is added to row \<open>idx[e]\<close> of \<open>self\<close>.  The shapes are checked
  first, then the indices.
\<close>

fun index_add_rows :: "('a::semiring_0) list list \<Rightarrow> int list \<Rightarrow> 'a list list \<Rightarrow> 'a list list" where
  "index_add_rows self (i # idx) (m # ms) =
     index_add_rows (self[nat i := map2 (+) (self ! nat i) m]) idx ms"
| "index_add_rows self idx ms = self"

definition index_add0 :: "('a::semiring_0) tensor \<Rightarrow> int list \<Rightarrow> 'a tensor \<Rightarrow> error + 'a tensor" where
  "index_add0 self idx src =
     (if length idx \<noteq> size0 src \<or> size1 src \<noteq> size1 self then Inl ShapeError
      else if \<not> list_all (\<lambda>i. 0 \<le> i \<and> i < int (size0 self)) idx then Inl IndexError
      else Inr (self\<lparr>data := index_add_rows (data self) idx (data src)\<rparr>))"

section \<open>GATConvImpl: message, aggregate, propagate\<close>

text \<open>The conversion of \<^verbatim>\<open>node_attr.size(0)\<close>, an \<^verbatim>\<open>int64_t\<close>, to the parameter
  \<^verbatim>\<open>int num_nodes\<close>: the value modulo \<open>2^32\<close>, read as signed.\<close>

definition to_int32 :: "int \<Rightarrow> int" where
  "to_int32 n = (n + 2147483648) mod 4294967296 - 2147483648"

text \<open>
  \<^verbatim>\<open>message\<close>: the rows of the source nodes are gathered; at hop 1 the edge
  features are put beside them; the edge weights multiply the result.
\<close>

definition message ::
  "int tensor \<Rightarrow> ('a::semiring_0) tensor \<Rightarrow> 'a tensor \<Rightarrow> 'a tensor \<Rightarrow> int \<Rightarrow> error + 'a tensor" where
  "message edge_index node_attr edge_attr edge_weight hop =
     ebind (select0 edge_index 0) (\<lambda>source_nodes.
     ebind (index_select0 node_attr source_nodes) (\<lambda>node_attr_j.
       if hop = 1
       then ebind (cat_last [node_attr_j, edge_attr]) (\<lambda>c. mul edge_weight c)
       else mul edge_weight node_attr_j))"

text \<open>
  \<^verbatim>\<open>aggregate\<close>: the messages are added into a tensor of zeros at the rows of
  their target nodes.
\<close>

definition aggregate ::
  "int tensor \<Rightarrow> ('a::semiring_0) tensor \<Rightarrow> int \<Rightarrow> error + 'a tensor" where
  "aggregate edge_index messages num_nodes =
     ebind (select0 edge_index 1) (\<lambda>target_nodes.
     ebind (zeros num_nodes (size1 messages)) (\<lambda>z.
       index_add0 z target_nodes messages))"

definition propagate ::
  "int tensor \<Rightarrow> ('a::semiring_0) tensor \<Rightarrow> 'a tensor \<Rightarrow> 'a tensor \<Rightarrow> int \<Rightarrow> error + 'a tensor" where
  "propagate edge_index node_attr edge_attr edge_weight hop =
     ebind (message edge_index node_attr edge_attr edge_weight hop) (\<lambda>messages.
       aggregate edge_index messages (to_int32 (int (size0 node_attr))))"

section \<open>MLPImpl\<close>

text \<open>
  The values of an \<^verbatim>\<open>int\<close> of the program are the integers from \<open>-2^31\<close> to
  \<open>2^31 - 1\<close>.  An arithmetic result outside that range is signed overflow.
\<close>

definition int_ok :: "int \<Rightarrow> error + int" where
  "int_ok n =
     (if - 2147483648 \<le> n \<and> n \<le> 2147483647 then Inr n else Inl SignedOverflow)"

text \<open>
  The modules that \<^verbatim>\<open>MLPImpl\<close> pushes into its \<^verbatim>\<open>torch::nn::Sequential\<close>.
  \<open>Activation\<close> is \<^verbatim>\<open>ActivationType()\<close> and \<open>EndActivation\<close> is
  \<^verbatim>\<open>EndActivationType()\<close>, the two template parameters.
\<close>

datatype layer =
    Linear int int
  | LayerNorm int
  | Activation
  | Dropout real
  | EndActivation

text \<open>
  \<^verbatim>\<open>torch::nn::Dropout(p)\<close>: the library's constructor refuses a probability
  outside \<open>[0, 1]\<close>.
\<close>

definition Dropout_new :: "real \<Rightarrow> error + layer" where
  "Dropout_new p = (if 0 \<le> p \<and> p \<le> 1 then Inr (Dropout p) else Inl DropoutRange)"

record MLP =
  model :: "layer list"

text \<open>
  The four statements that the constructor runs for every hidden layer (once
  before its loop for \<^verbatim>\<open>hidden_sizes[0]\<close>, then in the loop body): a linear
  layer, the layer norm if asked for, the activation, and a dropout layer
  when \<^verbatim>\<open>dropout_prob > 0.0\<close>.
\<close>

definition push_hidden :: "int \<Rightarrow> int \<Rightarrow> real \<Rightarrow> bool \<Rightarrow> layer list \<Rightarrow> error + layer list" where
  "push_hidden n_in n_out dropout_prob use_layer_norm m =
     (let m1 = m @ [Linear n_in n_out];
          m2 = (if use_layer_norm then m1 @ [LayerNorm n_out] else m1);
          m3 = m2 @ [Activation]
      in if dropout_prob > 0
         then ebind (Dropout_new dropout_prob) (\<lambda>d. Inr (m3 @ [d]))
         else Inr m3)"

text \<open>\<^verbatim>\<open>for (size_t i = 1; i < hidden_sizes.size(); ++i)\<close>\<close>

function hidden_loop :: "int list \<Rightarrow> real \<Rightarrow> bool \<Rightarrow> nat \<Rightarrow> layer list \<Rightarrow> error + layer list" where
  "hidden_loop hidden_sizes dropout_prob use_layer_norm i m =
     (if i < length hidden_sizes
      then (case push_hidden (hidden_sizes ! (i - 1)) (hidden_sizes ! i)
                   dropout_prob use_layer_norm m of
              Inl e \<Rightarrow> Inl e
            | Inr m' \<Rightarrow> hidden_loop hidden_sizes dropout_prob use_layer_norm (i + 1) m')
      else Inr m)"
  by pat_completeness auto
termination
  by (relation "measure (\<lambda>(hidden_sizes, dropout_prob, use_layer_norm, i, m).
                           length hidden_sizes - i)") auto

declare hidden_loop.simps [simp del]

text \<open>
  The constructor.  \<open>end_identity\<close> is
  \<^verbatim>\<open>std::is_same_v<EndActivationType, torch::nn::Identity>\<close>.
\<close>

definition MLP_new :: "bool \<Rightarrow> int \<Rightarrow> int list \<Rightarrow> int \<Rightarrow> real \<Rightarrow> bool \<Rightarrow> error + MLP" where
  "MLP_new end_identity input_size hidden_sizes output_size dropout_prob use_layer_norm =
     (if input_size < 1
      then Inl (InvalidArgument ''MLPImpl::MLPImpl: input_size cannot be less than one.'')
      else if output_size < 1
      then Inl (InvalidArgument ''MLPImpl::MLPImpl: output_size cannot be less than one.'')
      else if hidden_sizes = []
      then Inl (InvalidArgument ''MLPImpl::MLPImpl: hidden_sizes cannot be empty.'')
      else if list_ex (\<lambda>it. it < 1) hidden_sizes
      then Inl (InvalidArgument
                 ''MLPImpl::MLPImpl: All components of hidden_sizes must be greater than zero.'')
      else
        ebind (push_hidden input_size (hidden_sizes ! 0) dropout_prob use_layer_norm [])
          (\<lambda>m.
        ebind (hidden_loop hidden_sizes dropout_prob use_layer_norm 1 m) (\<lambda>m.
          let m' = m @ [Linear (last hidden_sizes) output_size]
          in Inr \<lparr>model = (if end_identity then m' else m' @ [EndActivation])\<rparr>)))"

text \<open>
  What a module of the sequence does to the width of its input: a linear
  layer and a layer norm accept one width only; the other modules work
  elementwise.
\<close>

fun layer_cols :: "layer \<Rightarrow> nat \<Rightarrow> error + nat" where
  "layer_cols (Linear n_in n_out) c = (if int c = n_in then Inr (nat n_out) else Inl ShapeError)"
| "layer_cols (LayerNorm n) c = (if int c = n then Inr c else Inl ShapeError)"
| "layer_cols Activation c = Inr c"
| "layer_cols (Dropout p) c = Inr c"
| "layer_cols EndActivation c = Inr c"

text \<open>
  The numbers a module computes depend on its learnt weights, on the
  activation chosen and on the dropout mask, and they are floating point.
  They are a parameter of the model: \<open>\<theta> pos x i j\<close> is element \<open>(i, j)\<close> of
  what the module at position \<open>pos\<close> of the sequence returns on \<open>x\<close>.
\<close>

type_synonym 'a params = "nat \<Rightarrow> 'a tensor \<Rightarrow> nat \<Rightarrow> nat \<Rightarrow> 'a"

definition layer_forward :: "'a params \<Rightarrow> nat \<Rightarrow> layer \<Rightarrow> 'a tensor \<Rightarrow> error + 'a tensor" where
  "layer_forward \<theta> pos l x =
     ebind (layer_cols l (size1 x)) (\<lambda>c.
       Inr \<lparr>size0 = size0 x, size1 = c,
            data = map (\<lambda>i. map (\<lambda>j. \<theta> pos x i j) [0..<c]) [0..<size0 x]\<rparr>)"

text \<open>\<^verbatim>\<open>model->forward(x)\<close>: the modules one after the other.\<close>

fun seq_forward :: "'a params \<Rightarrow> nat \<Rightarrow> layer list \<Rightarrow> 'a tensor \<Rightarrow> error + 'a tensor" where
  "seq_forward \<theta> pos [] x = Inr x"
| "seq_forward \<theta> pos (l # ls) x =
     (case layer_forward \<theta> pos l x of
        Inl e \<Rightarrow> Inl e
      | Inr y \<Rightarrow> seq_forward \<theta> (pos + 1) ls y)"

definition MLP_forward :: "'a params \<Rightarrow> MLP \<Rightarrow> 'a tensor \<Rightarrow> error + 'a tensor" where
  "MLP_forward \<theta> m x = seq_forward \<theta> 0 (model m) x"

section \<open>GATConvImpl\<close>

record GATConv =
  mlp :: MLP

text \<open>
  The constructor: its six checks in the order of the source, then the dense
  block, whose input width is computed with the \<^verbatim>\<open>int\<close> arithmetic of the
  program.
\<close>

definition GATConv_new ::
  "bool \<Rightarrow> int \<Rightarrow> int list \<Rightarrow> int \<Rightarrow> int \<Rightarrow> int \<Rightarrow> real \<Rightarrow> bool \<Rightarrow> error + GATConv" where
  "GATConv_new end_identity input_node_attr_size hidden_sizes output_node_attr_size
       initial_node_attr_size edge_attr_size dropout_prob use_layer_norm =
     (if input_node_attr_size < 1
      then Inl (InvalidArgument
                 ''GATConvImpl::GATConvImpl: input_node_attr_size cannot be less than one.'')
      else if output_node_attr_size < 1
      then Inl (InvalidArgument
                 ''GATConvImpl::GATConvImpl: output_node_attr_size cannot be less than one.'')
      else if initial_node_attr_size < 1
      then Inl (InvalidArgument
                 ''GATConvImpl::GATConvImpl: initial_node_attr_size cannot be less than one.'')
      else if edge_attr_size < 1
      then Inl (InvalidArgument
                 ''GATConvImpl::GATConvImpl: edge_attr_size cannot be less than one.'')
      else if hidden_sizes = []
      then Inl (InvalidArgument ''GATConvImpl::GATConvImpl: hidden_sizes cannot be empty.'')
      else if list_ex (\<lambda>it. it < 1) hidden_sizes
      then Inl (InvalidArgument
                 ''GATConvImpl::GATConvImpl: All components of hidden_sizes must be greater than zero.'')
      else
        ebind (int_ok (5 * input_node_attr_size)) (\<lambda>a.
        ebind (int_ok (a + initial_node_attr_size)) (\<lambda>b.
        ebind (int_ok (4 * edge_attr_size)) (\<lambda>c.
        ebind (int_ok (b + c)) (\<lambda>w.
        ebind (MLP_new end_identity w hidden_sizes output_node_attr_size
                 dropout_prob use_layer_norm) (\<lambda>m.
          Inr \<lparr>mlp = m\<rparr>))))))"

text \<open>
  \<^verbatim>\<open>forward\<close>.  \<open>\<theta>\<close> gives the numbers of the dense block; an error of a step
  ends the pass, as the exception does.
\<close>

definition GATConv_forward ::
  "('a::semiring_0) params \<Rightarrow> GATConv \<Rightarrow> int tensor \<Rightarrow> 'a tensor \<Rightarrow> 'a tensor \<Rightarrow> 'a tensor \<Rightarrow>
   'a tensor \<Rightarrow> error + 'a tensor" where
  "GATConv_forward \<theta> g edge_index node_attr edge_attr edge_weight initial_node_attr =
     (let reversed_edge_index = flip0 edge_index in
      ebind (propagate edge_index node_attr edge_attr edge_weight 1) (\<lambda>one_hop_incoming.
      ebind (propagate reversed_edge_index node_attr edge_attr edge_weight 1)
        (\<lambda>one_hop_outgoing.
      ebind (propagate edge_index one_hop_incoming edge_attr edge_weight 2)
        (\<lambda>two_hop_incoming.
      ebind (propagate reversed_edge_index one_hop_outgoing edge_attr edge_weight 2)
        (\<lambda>two_hop_outgoing.
      ebind (cat_last [initial_node_attr, node_attr, one_hop_incoming, one_hop_outgoing,
                       two_hop_incoming, two_hop_outgoing]) (\<lambda>combined.
        MLP_forward \<theta> (mlp g) combined))))))"

section \<open>NNImpl\<close>

record NN =
  gatconv1 :: GATConv
  gatconv2 :: GATConv
  mlp :: MLP
  k :: int

text \<open>
  The constructor builds the two convolutions and the reducer, in this order,
  and stores \<open>k\<close>; it has no check of its own.
\<close>

definition NN_new ::
  "bool \<Rightarrow> int \<Rightarrow> int list \<Rightarrow> int list \<Rightarrow> int list \<Rightarrow> int \<Rightarrow> int \<Rightarrow> real \<Rightarrow> bool \<Rightarrow> int \<Rightarrow>
   error + NN" where
  "NN_new end_identity node_attr_size hidden_sizes_1 hidden_sizes_2 hidden_sizes_mlp
       output_node_attr_size edge_attr_size dropout_prob use_layer_norm k' =
     ebind (GATConv_new end_identity node_attr_size hidden_sizes_1 output_node_attr_size
              node_attr_size edge_attr_size dropout_prob use_layer_norm) (\<lambda>g1.
     ebind (GATConv_new end_identity output_node_attr_size hidden_sizes_2 output_node_attr_size
              node_attr_size edge_attr_size dropout_prob use_layer_norm) (\<lambda>g2.
     ebind (int_ok (2 * output_node_attr_size)) (\<lambda>w.
     ebind (MLP_new end_identity w hidden_sizes_mlp 1 dropout_prob use_layer_norm) (\<lambda>m.
       Inr \<lparr>gatconv1 = g1, gatconv2 = g2, mlp = m, k = k'\<rparr>))))"

text \<open>
  \<^verbatim>\<open>for (int i = 0; i < k - 1; ++i)\<close>: each round replaces the running
  \<^verbatim>\<open>output_node_attr\<close> by what \<^verbatim>\<open>gatconv2\<close> returns on it.
\<close>

function conv_loop ::
  "('a::semiring_0) params \<Rightarrow> NN \<Rightarrow> int tensor \<Rightarrow> 'a tensor \<Rightarrow> 'a tensor \<Rightarrow> 'a tensor \<Rightarrow>
   int \<Rightarrow> 'a tensor \<Rightarrow> error + 'a tensor" where
  "conv_loop \<theta> nn edge_index node_attr edge_attr edge_weight i output_node_attr =
     (case int_ok (k nn - 1) of
        Inl e \<Rightarrow> Inl e
      | Inr bound \<Rightarrow>
          if i < bound
          then (case GATConv_forward \<theta> (gatconv2 nn) edge_index output_node_attr
                       edge_attr edge_weight node_attr of
                  Inl e \<Rightarrow> Inl e
                | Inr out \<Rightarrow>
                    conv_loop \<theta> nn edge_index node_attr edge_attr edge_weight (i + 1) out)
          else Inr output_node_attr)"
  by pat_completeness auto
termination
  by (relation "measure (\<lambda>(\<theta>, nn, edge_index, node_attr, edge_attr, edge_weight, i, out).
                           nat (k nn - 1 - i))")
     (auto simp: int_ok_def split: if_splits)

declare conv_loop.simps [simp del]

text \<open>
  \<^verbatim>\<open>forward\<close>.  \<open>\<theta>1\<close>, \<open>\<theta>2\<close> and \<open>\<theta>3\<close> give the numbers of \<^verbatim>\<open>gatconv1\<close>,
  \<^verbatim>\<open>gatconv2\<close> and \<^verbatim>\<open>mlp\<close>.
\<close>

definition NN_forward ::
  "('a::semiring_0) params \<Rightarrow> 'a params \<Rightarrow> 'a params \<Rightarrow> NN \<Rightarrow> int tensor \<Rightarrow> 'a tensor \<Rightarrow>
   'a tensor \<Rightarrow> 'a tensor \<Rightarrow> error + 'a tensor" where
  "NN_forward \<theta>1 \<theta>2 \<theta>3 nn edge_index node_attr edge_attr edge_weight =
     ebind (GATConv_forward \<theta>1 (gatconv1 nn) edge_index node_attr edge_attr edge_weight
              node_attr) (\<lambda>out1.
     ebind (conv_loop \<theta>2 nn edge_index node_attr edge_attr edge_weight 0 out1)
       (\<lambda>output_node_attr.
     ebind (select0 edge_index 0) (\<lambda>source_nodes.
     ebind (index_select0 output_node_attr source_nodes) (\<lambda>node_attr_1.
     ebind (select0 edge_index 1) (\<lambda>target_nodes.
     ebind (index_select0 output_node_attr target_nodes) (\<lambda>node_attr_2.
     ebind (cat_last [node_attr_1, node_attr_2]) (\<lambda>output_edge_attr.
       MLP_forward \<theta>3 (mlp nn) output_edge_attr)))))))"

section \<open>The specification's words\<close>

text \<open>
  The definitions of this section are written from the specification, not
  from the code; the theorems compare them with the definitions above.
\<close>

subsection \<open>The graph of the data model\<close>

text \<open>Every index of \<open>idx\<close> is one of the \<open>N\<close> nodes.\<close>

definition in_range :: "nat \<Rightarrow> int list \<Rightarrow> bool" where
  "in_range N idx = list_all (\<lambda>i. 0 \<le> i \<and> i < int N) idx"

text \<open>
  The shapes of the edge data: \<open>edge_index\<close> has the two rows \<open>source\<close> and
  \<open>target\<close> of length \<open>E\<close>, \<open>edge_attr\<close> has one row for every edge and
  \<open>edge_weight\<close> one scalar for every edge.
\<close>

definition graph_shapes :: "int tensor \<Rightarrow> 'a tensor \<Rightarrow> 'a tensor \<Rightarrow> bool" where
  "graph_shapes edge_index edge_attr edge_weight \<longleftrightarrow>
     wf_tensor edge_index \<and> size0 edge_index = 2 \<and>
     wf_tensor edge_attr \<and> size0 edge_attr = size1 edge_index \<and>
     wf_tensor edge_weight \<and> size0 edge_weight = size1 edge_index \<and> size1 edge_weight = 1"

text \<open>
  The node features fit the edge list: every source and every target is a
  node.  The number of nodes is one that an \<^verbatim>\<open>int\<close> of the program holds.
\<close>

definition nodes_ok :: "int tensor \<Rightarrow> 'a tensor \<Rightarrow> bool" where
  "nodes_ok edge_index node_attr \<longleftrightarrow>
     wf_tensor node_attr \<and> size0 node_attr < 2147483648 \<and>
     in_range (size0 node_attr) (data edge_index ! 0) \<and>
     in_range (size0 node_attr) (data edge_index ! 1)"

subsection \<open>Messages and their aggregation\<close>

text \<open>
  The message of edge \<open>e\<close>: the weight of \<open>e\<close> times the features of the source
  of \<open>e\<close>, which at hop 1 are followed by the features of \<open>e\<close>.
\<close>

definition message_spec ::
  "int tensor \<Rightarrow> ('a::semiring_0) tensor \<Rightarrow> 'a tensor \<Rightarrow> 'a tensor \<Rightarrow> int \<Rightarrow> 'a tensor" where
  "message_spec edge_index node_attr edge_attr edge_weight hop =
     \<lparr>size0 = size1 edge_index,
      size1 = (if hop = 1 then size1 node_attr + size1 edge_attr else size1 node_attr),
      data = map (\<lambda>e.
                let node_attr_j = data node_attr ! nat (data edge_index ! 0 ! e)
                in map (\<lambda>x. data edge_weight ! e ! 0 * x)
                     (if hop = 1 then node_attr_j @ data edge_attr ! e else node_attr_j))
               [0..<size1 edge_index]\<rparr>"

text \<open>The sum of a list of vectors of width \<open>w\<close>; the empty sum is the zero vector.\<close>

definition vec_sum :: "nat \<Rightarrow> ('a::semiring_0) list list \<Rightarrow> 'a list" where
  "vec_sum w vs = foldl (map2 (+)) (replicate w 0) vs"

text \<open>
  The scatter-sum: one row for every node, the sum of the messages of the
  edges whose target is that node.
\<close>

definition scatter_sum :: "int list \<Rightarrow> ('a::semiring_0) tensor \<Rightarrow> int \<Rightarrow> 'a tensor" where
  "scatter_sum target messages num_nodes =
     \<lparr>size0 = nat num_nodes, size1 = size1 messages,
      data = map (\<lambda>n. vec_sum (size1 messages)
                        (map (\<lambda>e. data messages ! e)
                             (filter (\<lambda>e. target ! e = int n) [0..<length target])))
                 [0..<nat num_nodes]\<rparr>"

subsection \<open>The dense block\<close>

text \<open>The size constraints of the dense block's constructor.\<close>

definition size_violation :: "int \<Rightarrow> int list \<Rightarrow> int \<Rightarrow> bool" where
  "size_violation input_size hidden_sizes output_size \<longleftrightarrow>
     input_size < 1 \<or> output_size < 1 \<or> hidden_sizes = [] \<or> list_ex (\<lambda>h. h < 1) hidden_sizes"

text \<open>
  The layers of the dense block: for every hidden layer a linear layer, the
  normalisation if asked for, the activation, and dropout if the probability
  is above 0; then a last linear layer to the output size; then the output
  activation if there is one.
\<close>

definition hidden_layer :: "int \<Rightarrow> int \<Rightarrow> real \<Rightarrow> bool \<Rightarrow> layer list" where
  "hidden_layer n_in n_out dropout_prob use_normalization =
     [Linear n_in n_out] @ (if use_normalization then [LayerNorm n_out] else []) @
     [Activation] @ (if dropout_prob > 0 then [Dropout dropout_prob] else [])"

fun hidden_layers :: "int \<Rightarrow> int list \<Rightarrow> real \<Rightarrow> bool \<Rightarrow> layer list" where
  "hidden_layers n_in [] dropout_prob use_normalization = []"
| "hidden_layers n_in (h # hs) dropout_prob use_normalization =
     hidden_layer n_in h dropout_prob use_normalization @
     hidden_layers h hs dropout_prob use_normalization"

definition dense_block_layers :: "bool \<Rightarrow> int \<Rightarrow> int list \<Rightarrow> int \<Rightarrow> real \<Rightarrow> bool \<Rightarrow> layer list" where
  "dense_block_layers end_identity input_size hidden_sizes output_size dropout_prob
       use_normalization =
     hidden_layers input_size hidden_sizes dropout_prob use_normalization @
     [Linear (last hidden_sizes) output_size] @
     (if end_identity then [] else [EndActivation])"

fun is_dropout :: "layer \<Rightarrow> bool" where
  "is_dropout (Dropout p) = True"
| "is_dropout l = False"

text \<open>
  The width of what a sequence of modules returns on an input of width \<open>c\<close>,
  or the error of the first module that does not accept its input.
\<close>

fun seq_cols :: "layer list \<Rightarrow> nat \<Rightarrow> error + nat" where
  "seq_cols [] c = Inr c"
| "seq_cols (l # ls) c = (case layer_cols l c of Inl e \<Rightarrow> Inl e | Inr c' \<Rightarrow> seq_cols ls c')"

subsection \<open>The convolution\<close>

text \<open>The width constraints of the convolution's constructor.\<close>

definition width_violation :: "int \<Rightarrow> int list \<Rightarrow> int \<Rightarrow> int \<Rightarrow> int \<Rightarrow> bool" where
  "width_violation input_node_width hidden_sizes output_node_width initial_node_width edge_width
     \<longleftrightarrow>
     input_node_width < 1 \<or> output_node_width < 1 \<or> initial_node_width < 1 \<or>
     edge_width < 1 \<or> hidden_sizes = [] \<or> list_ex (\<lambda>h. h < 1) hidden_sizes"

text \<open>The input width of the convolution's dense block.\<close>

definition dense_input_width :: "int \<Rightarrow> int \<Rightarrow> int \<Rightarrow> int" where
  "dense_input_width input_node_width initial_node_width edge_width =
     5 * input_node_width + initial_node_width + 4 * edge_width"

text \<open>The reverse edge list: \<open>source\<close> and \<open>target\<close> swapped.\<close>

definition swap_source_target :: "int tensor \<Rightarrow> int tensor" where
  "swap_source_target edge_index =
     edge_index\<lparr>data := [data edge_index ! 1, data edge_index ! 0]\<rparr>"

text \<open>Six blocks side by side: row \<open>n\<close> is the six rows \<open>n\<close> one after the other.\<close>

definition concat6 ::
  "'a tensor \<Rightarrow> 'a tensor \<Rightarrow> 'a tensor \<Rightarrow> 'a tensor \<Rightarrow> 'a tensor \<Rightarrow> 'a tensor \<Rightarrow> 'a tensor" where
  "concat6 a b c d e f =
     \<lparr>size0 = size0 a,
      size1 = size1 a + size1 b + size1 c + size1 d + size1 e + size1 f,
      data = map (\<lambda>n. data a ! n @ data b ! n @ data c ! n @ data d ! n @ data e ! n @ data f ! n)
               [0..<size0 a]\<rparr>"

text \<open>
  The seven steps of the convolution's forward pass: the reverse edge list,
  the four aggregations, the concatenation, the dense block.  The blocks of
  a concatenation must have the same number of rows.
\<close>

definition GATConv_forward_spec ::
  "('a::semiring_0) params \<Rightarrow> GATConv \<Rightarrow> int tensor \<Rightarrow> 'a tensor \<Rightarrow> 'a tensor \<Rightarrow> 'a tensor \<Rightarrow>
   'a tensor \<Rightarrow> error + 'a tensor" where
  "GATConv_forward_spec \<theta> g edge_index node_attr edge_attr edge_weight initial_node_attr =
     (case propagate edge_index node_attr edge_attr edge_weight 1 of
        Inl err \<Rightarrow> Inl err
      | Inr one_hop_incoming \<Rightarrow>
     (case propagate (swap_source_target edge_index) node_attr edge_attr edge_weight 1 of
        Inl err \<Rightarrow> Inl err
      | Inr one_hop_outgoing \<Rightarrow>
     (case propagate edge_index one_hop_incoming edge_attr edge_weight 2 of
        Inl err \<Rightarrow> Inl err
      | Inr two_hop_incoming \<Rightarrow>
     (case propagate (swap_source_target edge_index) one_hop_outgoing edge_attr edge_weight 2 of
        Inl err \<Rightarrow> Inl err
      | Inr two_hop_outgoing \<Rightarrow>
          if size0 node_attr = size0 initial_node_attr \<and>
             size0 one_hop_incoming = size0 initial_node_attr \<and>
             size0 one_hop_outgoing = size0 initial_node_attr \<and>
             size0 two_hop_incoming = size0 initial_node_attr \<and>
             size0 two_hop_outgoing = size0 initial_node_attr
          then MLP_forward \<theta> (GATConv.mlp g)
                 (concat6 initial_node_attr node_attr one_hop_incoming one_hop_outgoing
                    two_hop_incoming two_hop_outgoing)
          else Inl ShapeError))))"

subsection \<open>The network\<close>

text \<open>\<open>n\<close> applications of a convolution, each on the result of the one before.\<close>

fun repeat_conv ::
  "nat \<Rightarrow> ('a tensor \<Rightarrow> error + 'a tensor) \<Rightarrow> 'a tensor \<Rightarrow> error + 'a tensor" where
  "repeat_conv 0 conv embedding = Inr embedding"
| "repeat_conv (Suc n) conv embedding =
     (case conv embedding of Inl err \<Rightarrow> Inl err | Inr embedding' \<Rightarrow> repeat_conv n conv embedding')"

text \<open>
  For every edge the embedding of its source followed by the embedding of its
  target.
\<close>

definition endpoint_features :: "int tensor \<Rightarrow> 'a tensor \<Rightarrow> 'a tensor" where
  "endpoint_features edge_index embedding =
     \<lparr>size0 = size1 edge_index, size1 = size1 embedding + size1 embedding,
      data = map (\<lambda>e. data embedding ! nat (data edge_index ! 0 ! e) @
                       data embedding ! nat (data edge_index ! 1 ! e))
               [0..<size1 edge_index]\<rparr>"

text \<open>
  The four steps of the network's forward pass: the first convolution with
  the node features as initial features, \<open>k - 1\<close> applications of the second
  convolution with the original node features as initial features, the
  endpoint embeddings of every edge, the reducer.
\<close>

definition NN_forward_spec ::
  "('a::semiring_0) params \<Rightarrow> 'a params \<Rightarrow> 'a params \<Rightarrow> NN \<Rightarrow> int tensor \<Rightarrow> 'a tensor \<Rightarrow>
   'a tensor \<Rightarrow> 'a tensor \<Rightarrow> error + 'a tensor" where
  "NN_forward_spec \<theta>1 \<theta>2 \<theta>3 nn edge_index node_attr edge_attr edge_weight =
     (case GATConv_forward \<theta>1 (gatconv1 nn) edge_index node_attr edge_attr edge_weight
             node_attr of
        Inl err \<Rightarrow> Inl err
      | Inr first_embedding \<Rightarrow>
     (case repeat_conv (nat (k nn - 1))
             (\<lambda>embedding. GATConv_forward \<theta>2 (gatconv2 nn) edge_index embedding edge_attr
                             edge_weight node_attr)
             first_embedding of
        Inl err \<Rightarrow> Inl err
      | Inr embedding \<Rightarrow>
          if in_range (size0 embedding) (data edge_index ! 0) \<and>
             in_range (size0 embedding) (data edge_index ! 1)
          then MLP_forward \<theta>3 (NN.mlp nn) (endpoint_features edge_index embedding)
          else Inl IndexError))"

subsection \<open>Another order of the edges\<close>

text \<open>\<open>p\<close> lists the numbers below \<open>n\<close>, each once.\<close>

definition is_permutation :: "nat list \<Rightarrow> nat \<Rightarrow> bool" where
  "is_permutation p n \<longleftrightarrow> sort p = [0..<n]"

text \<open>The rows, and the columns, of a tensor in the order \<open>p\<close>.\<close>

definition permute_rows :: "nat list \<Rightarrow> 'a tensor \<Rightarrow> 'a tensor" where
  "permute_rows p t = \<lparr>size0 = length p, size1 = size1 t, data = map (\<lambda>e. data t ! e) p\<rparr>"

definition permute_cols :: "nat list \<Rightarrow> 'a tensor \<Rightarrow> 'a tensor" where
  "permute_cols p t =
     \<lparr>size0 = size0 t, size1 = length p, data = map (\<lambda>r. map (\<lambda>e. r ! e) p) (data t)\<rparr>"

section \<open>An example\<close>

text \<open>
  A graph: three nodes with two features, the edges \<open>0 \<rightarrow> 1\<close>, \<open>1 \<rightarrow> 2\<close> and
  \<open>1 \<rightarrow> 2\<close> again, one feature and one weight for every edge.
\<close>

definition ex_edge_index :: "int tensor" where
  "ex_edge_index = \<lparr>size0 = 2, size1 = 3, data = [[0, 1, 1], [1, 2, 2]]\<rparr>"

definition ex_node_attr :: "int tensor" where
  "ex_node_attr = \<lparr>size0 = 3, size1 = 2, data = [[1, 2], [3, 4], [5, 6]]\<rparr>"

definition ex_edge_attr :: "int tensor" where
  "ex_edge_attr = \<lparr>size0 = 3, size1 = 1, data = [[10], [20], [30]]\<rparr>"

definition ex_edge_weight :: "int tensor" where
  "ex_edge_weight = \<lparr>size0 = 3, size1 = 1, data = [[2], [3], [1]]\<rparr>"

text \<open>The same edges with a target, and with a source, that is not a node.\<close>

definition ex_bad_target :: "int tensor" where
  "ex_bad_target = \<lparr>size0 = 2, size1 = 3, data = [[0, 1, 1], [1, 2, 3]]\<rparr>"

definition ex_bad_source :: "int tensor" where
  "ex_bad_source = \<lparr>size0 = 2, size1 = 3, data = [[0, - 1, 1], [1, 2, 2]]\<rparr>"

text \<open>Numbers for the modules: every element is the sum of the input's row.\<close>

definition ex_params :: "int params" where
  "ex_params pos x i j = sum_list (data x ! i)"

text \<open>
  The convolution that \<open>GATConv_new True 2 [3] 4 2 1 0 True\<close> builds, and the
  network that \<open>NN_new True 2 [3] [3] [3] 4 1 0 True k\<close> builds.
\<close>

definition ex_conv :: GATConv where
  "ex_conv = \<lparr>GATConv.mlp = \<lparr>model = [Linear 16 3, LayerNorm 3, Activation, Linear 3 4]\<rparr>\<rparr>"

definition ex_net :: "int \<Rightarrow> NN" where
  "ex_net k' =
     \<lparr>gatconv1 = \<lparr>GATConv.mlp = \<lparr>model = [Linear 16 3, LayerNorm 3, Activation, Linear 3 4]\<rparr>\<rparr>,
      gatconv2 = \<lparr>GATConv.mlp = \<lparr>model = [Linear 26 3, LayerNorm 3, Activation, Linear 3 4]\<rparr>\<rparr>,
      mlp = \<lparr>model = [Linear 8 3, LayerNorm 3, Activation, Linear 3 1]\<rparr>,
      k = k'\<rparr>"

section \<open>Lists, rows and results\<close>

lemma wf_row_length:
  "wf_tensor t \<Longrightarrow> i < size0 t \<Longrightarrow> length (data t ! i) = size1 t"
  by (simp add: wf_tensor_def list_all_length)

lemma two_rows:
  assumes "wf_tensor t" "size0 t = 2"
  shows "data t = [data t ! 0, data t ! 1]"
proof -
  have "length (data t) = 2"
    using assms by (simp add: wf_tensor_def)
  then show ?thesis
    by (cases "data t"; cases "tl (data t)") auto
qed

lemma zip_as_map:
  "length xs = length ys \<Longrightarrow> zip xs ys = map (\<lambda>e. (xs ! e, ys ! e)) [0..<length xs]"
  by (rule nth_equalityI) simp_all

lemma filtered_zip:
  assumes "length idx = length ms"
  shows "map snd (filter (\<lambda>p. P (fst p)) (zip idx ms)) =
         map (\<lambda>e. ms ! e) (filter (\<lambda>e. P (idx ! e)) [0..<length idx])"
  by (simp add: zip_as_map [OF assms] filter_map o_def)

lemma map_nth_fun: "map (\<lambda>j. f (xs ! j)) [0..<length xs] = map f xs"
  by (rule nth_equalityI) simp_all

lemma foldl_map2_length:
  "length z = w \<Longrightarrow> list_all (\<lambda>v. length v = w) vs \<Longrightarrow> length (foldl (map2 (+)) z vs) = w"
  by (induction vs arbitrary: z) simp_all

lemma foldl_map2_nth:
  fixes z :: "('a::semiring_0) list"
  shows "length z = w \<Longrightarrow> list_all (\<lambda>v. length v = w) vs \<Longrightarrow> j < w \<Longrightarrow>
         foldl (map2 (+)) z vs ! j = z ! j + sum_list (map (\<lambda>v. v ! j) vs)"
  by (induction vs arbitrary: z) (simp_all add: add.assoc)

lemma vec_sum_Nil: "vec_sum w [] = replicate w 0"
  by (simp add: vec_sum_def)

lemma vec_sum_length:
  "list_all (\<lambda>v. length v = w) vs \<Longrightarrow> length (vec_sum w vs) = w"
  by (simp add: vec_sum_def foldl_map2_length)

lemma ebind_Inl: "m = Inl err \<Longrightarrow> ebind m f = Inl err"
  by (simp add: ebind_def)

lemma ebind_Inr: "ebind (Inr x) f = f x"
  by (simp add: ebind_def)

lemma ebind_isl: "isl m \<Longrightarrow> isl (ebind m f)"
  by (cases m) (simp_all add: ebind_def)

lemma to_int32_id: "n < 2147483648 \<Longrightarrow> to_int32 (int n) = int n"
  by (simp add: to_int32_def)

lemma to_int32_le: "to_int32 (int n) \<le> int n"
proof -
  have "(int n + 2147483648) mod 4294967296 \<le> int n + 2147483648"
    by (rule zmod_le_nonneg_dividend) simp
  then show ?thesis
    by (simp add: to_int32_def)
qed

lemma ex_graph_shapes: "graph_shapes ex_edge_index ex_edge_attr ex_edge_weight"
  by (simp add: graph_shapes_def wf_tensor_def ex_edge_index_def ex_edge_attr_def
        ex_edge_weight_def)

lemma ex_nodes_ok: "nodes_ok ex_edge_index ex_node_attr"
  by (simp add: nodes_ok_def in_range_def wf_tensor_def ex_edge_index_def ex_node_attr_def)

section \<open>aggregate is the scatter-sum\<close>

lemma length_index_add_rows:
  "length (index_add_rows self idx ms) = length self"
  by (induction self idx ms rule: index_add_rows.induct) simp_all

lemma index_add_rows_nth:
  "n < length self \<Longrightarrow>
   index_add_rows self idx ms ! n =
     foldl (map2 (+)) (self ! n) (map snd (filter (\<lambda>p. nat (fst p) = n) (zip idx ms)))"
proof (induction self idx ms rule: index_add_rows.induct)
  case (1 self i idx m ms)
  then show ?case by (simp add: nth_list_update)
qed simp_all

lemma index_add_rows_zeros:
  assumes len: "length idx = length ms"
    and rng: "list_all (\<lambda>i. 0 \<le> i \<and> i < int N) idx"
    and n: "n < N"
  shows "index_add_rows (replicate N (replicate w 0)) idx ms ! n =
         vec_sum w (map (\<lambda>e. ms ! e) (filter (\<lambda>e. idx ! e = int n) [0..<length idx]))"
proof -
  have "filter (\<lambda>e. nat (idx ! e) = n) [0..<length idx] =
        filter (\<lambda>e. idx ! e = int n) [0..<length idx]"
    using rng by (intro filter_cong) (auto simp: list_all_length)
  then show ?thesis
    using n filtered_zip [OF len, of "\<lambda>i. nat i = n"]
    by (simp add: index_add_rows_nth vec_sum_def)
qed

lemma aggregate_eq:
  fixes messages :: "('a::semiring_0) tensor"
  assumes ei: "wf_tensor edge_index" "size0 edge_index = 2"
    and ms: "wf_tensor messages" "size0 messages = size1 edge_index"
    and nn: "0 \<le> num_nodes"
    and rng: "list_all (\<lambda>i. 0 \<le> i \<and> i < num_nodes) (data edge_index ! 1)"
  shows "aggregate edge_index messages num_nodes =
         Inr (scatter_sum (data edge_index ! 1) messages num_nodes)"
proof -
  define tgt where "tgt = data edge_index ! 1"
  have lt: "length tgt = size1 edge_index"
    using ei by (simp add: wf_row_length tgt_def)
  have lm: "length (data messages) = length tgt"
    using ms lt by (simp add: wf_tensor_def)
  have rng': "list_all (\<lambda>i. 0 \<le> i \<and> i < int (nat num_nodes)) tgt"
    using rng nn by (simp add: tgt_def)
  have rows: "index_add_rows (replicate (nat num_nodes) (replicate (size1 messages) 0))
                tgt (data messages) =
              map (\<lambda>n. vec_sum (size1 messages)
                         (map (\<lambda>e. data messages ! e)
                              (filter (\<lambda>e. tgt ! e = int n) [0..<length tgt])))
                  [0..<nat num_nodes]"
    by (rule nth_equalityI)
       (simp_all add: length_index_add_rows index_add_rows_zeros [OF lm [symmetric] rng'])
  have sel: "select0 edge_index 1 = Inr tgt"
    using ei(2) by (simp add: select0_def tgt_def)
  show ?thesis
    unfolding aggregate_def sel tgt_def [symmetric]
    using nn lt ms(2) rng' rows
    by (simp add: zeros_def index_add0_def ebind_def scatter_sum_def)
qed

lemma scatter_sum_wf:
  fixes messages :: "('a::semiring_0) tensor"
  assumes "wf_tensor messages" "length target = size0 messages"
  shows "wf_tensor (scatter_sum target messages num_nodes)"
proof -
  have "list_all (\<lambda>v. length v = size1 messages)
          (map (\<lambda>e. data messages ! e) (filter P [0..<length target]))" for P
    using assms by (auto simp: list_all_iff wf_tensor_def)
  then show ?thesis
    by (simp add: scatter_sum_def wf_tensor_def list_all_length vec_sum_length)
qed

text \<open>
  Claim C3.  On an edge list of two rows whose targets are nodes, \<open>aggregate\<close>
  returns a tensor with \<open>num_nodes\<close> rows of the width of the messages; row \<open>n\<close>
  is the sum of the messages of the edges whose target is \<open>n\<close>, and it is the
  zero vector when no edge has target \<open>n\<close>.
\<close>

theorem aggregate_scatter_sum:
  fixes messages :: "('a::semiring_0) tensor"
  assumes "wf_tensor edge_index" and "size0 edge_index = 2"
    and "wf_tensor messages" and "size0 messages = size1 edge_index"
    and "0 \<le> num_nodes"
    and "list_all (\<lambda>i. 0 \<le> i \<and> i < num_nodes) (data edge_index ! 1)"
  shows "\<exists>out. aggregate edge_index messages num_nodes = Inr out
           \<and> size0 out = nat num_nodes \<and> size1 out = size1 messages
           \<and> length (data out) = nat num_nodes
           \<and> out = scatter_sum (data edge_index ! 1) messages num_nodes
           \<and> (\<forall>n < nat num_nodes.
                data out ! n =
                  vec_sum (size1 messages)
                    (map (\<lambda>e. data messages ! e)
                       (filter (\<lambda>e. data edge_index ! 1 ! e = int n) [0..<size1 edge_index]))
                \<and> (int n \<notin> set (data edge_index ! 1) \<longrightarrow>
                     data out ! n = replicate (size1 messages) 0))"
proof -
  let ?tgt = "data edge_index ! 1"
  let ?out = "scatter_sum ?tgt messages num_nodes"
  have lt: "length ?tgt = size1 edge_index"
    using assms(1,2) by (simp add: wf_row_length)
  have row: "data ?out ! n =
               vec_sum (size1 messages)
                 (map (\<lambda>e. data messages ! e)
                    (filter (\<lambda>e. ?tgt ! e = int n) [0..<size1 edge_index]))"
    if "n < nat num_nodes" for n
    using that lt by (simp add: scatter_sum_def)
  have zero: "data ?out ! n = replicate (size1 messages) 0"
    if "n < nat num_nodes" and "int n \<notin> set ?tgt" for n
  proof -
    have "?tgt ! e \<noteq> int n" if "e < size1 edge_index" for e
      using that \<open>int n \<notin> set ?tgt\<close> lt by (metis nth_mem)
    then have "filter (\<lambda>e. ?tgt ! e = int n) [0..<size1 edge_index] = []"
      by (simp add: filter_empty_conv)
    then show ?thesis
      using row [OF that(1)] by (simp add: vec_sum_Nil)
  qed
  have "aggregate edge_index messages num_nodes = Inr ?out"
    using assms by (rule aggregate_eq)
  moreover have "size0 ?out = nat num_nodes" "size1 ?out = size1 messages"
    "length (data ?out) = nat num_nodes"
    by (simp_all add: scatter_sum_def)
  ultimately show ?thesis
    using row zero by blast
qed

theorem aggregate_scatter_sum_witness:
  "aggregate \<lparr>size0 = 2, size1 = 3, data = [[0, 1, 1], [1, 2, 2]]\<rparr>
             \<lparr>size0 = 3, size1 = 2, data = [[1, 2], [3, 4], [5, 6 :: int]]\<rparr> 3 =
   Inr \<lparr>size0 = 3, size1 = 2, data = [[0, 0], [1, 2], [8, 10]]\<rparr>"
proof -
  have "scatter_sum [1, 2, 2] \<lparr>size0 = 3, size1 = 2, data = [[1, 2], [3, 4], [5, 6 :: int]]\<rparr> 3 =
        \<lparr>size0 = 3, size1 = 2, data = [[0, 0], [1, 2], [8, 10]]\<rparr>"
    by code_simp
  then show ?thesis
    using aggregate_scatter_sum
      [of "\<lparr>size0 = 2, size1 = 3, data = [[0, 1, 1], [1, 2, 2]]\<rparr>"
          "\<lparr>size0 = 3, size1 = 2, data = [[1, 2], [3, 4], [5, 6 :: int]]\<rparr>" 3]
    by (simp add: wf_tensor_def)
qed

section \<open>message, edge by edge\<close>

lemma mul_scalar_rows:
  fixes c :: "('a::semiring_0) tensor"
  assumes "wf_tensor c" and "size0 w = size0 c" and "size1 w = 1"
  shows "mul w c =
         Inr \<lparr>size0 = size0 c, size1 = size1 c,
              data = map (\<lambda>i. map (\<lambda>x. data w ! i ! 0 * x) (data c ! i)) [0..<size0 c]\<rparr>"
proof -
  have row: "map (\<lambda>j. bc_at w i j * bc_at c i j) [0..<size1 c] =
             map (\<lambda>x. data w ! i ! 0 * x) (data c ! i)" if "i < size0 c" for i
  proof -
    have len: "length (data c ! i) = size1 c"
      using assms(1) that by (rule wf_row_length)
    have "bc_at w i j = data w ! i ! 0" for j
      using that assms(2,3) by (auto simp: bc_at_def)
    moreover have "bc_at c i j = data c ! i ! j" if "j < size1 c" for j
      using that \<open>i < size0 c\<close> by (auto simp: bc_at_def)
    ultimately have "map (\<lambda>j. bc_at w i j * bc_at c i j) [0..<size1 c] =
                     map (\<lambda>j. data w ! i ! 0 * (data c ! i ! j)) [0..<length (data c ! i)]"
      by (simp add: len)
    then show ?thesis
      by (simp only: map_nth_fun)
  qed
  have "broadcast_dim 1 (size1 c) = Inr (size1 c)"
    by (simp add: broadcast_dim_def)
  then show ?thesis
    using assms(2,3) row by (simp add: mul_def ebind_def broadcast_dim_def)
qed

lemma index_select0_wf:
  "wf_tensor t \<Longrightarrow> index_select0 t idx = Inr s \<Longrightarrow> wf_tensor s"
  by (auto simp: index_select0_def wf_tensor_def list_all_length split: if_splits)

lemma cat_last_two:
  assumes "size0 b = size0 a"
  shows "cat_last [a, b] =
         Inr \<lparr>size0 = size0 a, size1 = size1 a + size1 b,
              data = map (\<lambda>i. data a ! i @ data b ! i) [0..<size0 a]\<rparr>"
  using assms by (simp add: cat_last_def)

lemma message_eq:
  fixes node_attr :: "('a::semiring_0) tensor"
  assumes ei: "wf_tensor edge_index" "size0 edge_index = 2"
    and na: "wf_tensor node_attr"
    and ew: "size0 edge_weight = size1 edge_index" "size1 edge_weight = 1"
    and src: "list_all (\<lambda>i. 0 \<le> i \<and> i < int (size0 node_attr)) (data edge_index ! 0)"
    and ea: "hop = 1 \<longrightarrow> wf_tensor edge_attr \<and> size0 edge_attr = size1 edge_index"
  shows "message edge_index node_attr edge_attr edge_weight hop =
         Inr (message_spec edge_index node_attr edge_attr edge_weight hop)"
proof -
  define source where "source = data edge_index ! 0"
  define E where "E = size1 edge_index"
  have ls: "length source = E"
    using ei by (simp add: wf_row_length source_def E_def)
  have sel: "select0 edge_index 0 = Inr source"
    using ei(2) by (simp add: select0_def source_def)
  define naj where "naj = \<lparr>size0 = E, size1 = size1 node_attr,
                            data = map (\<lambda>i. data node_attr ! nat i) source\<rparr>"
  have gather: "index_select0 node_attr source = Inr naj"
    using src by (simp add: index_select0_def source_def [symmetric] naj_def ls)
  have wfj: "wf_tensor naj"
    using gather na by (rule index_select0_wf [rotated])
  show ?thesis
  proof (cases "hop = 1")
    case False
    have "size0 edge_weight = size0 naj"
      using ew by (simp add: naj_def E_def)
    from mul_scalar_rows [OF wfj this ew(2)]
    have "mul edge_weight naj = Inr (message_spec edge_index node_attr edge_attr edge_weight hop)"
      using False ls
      by (simp add: naj_def message_spec_def E_def [symmetric] source_def [symmetric] Let_def)
    then show ?thesis
      using False by (simp add: message_def sel gather ebind_def)
  next
    case True
    define c where "c = \<lparr>size0 = E, size1 = size1 node_attr + size1 edge_attr,
                          data = map (\<lambda>i. data naj ! i @ data edge_attr ! i) [0..<E]\<rparr>"
    have cat: "cat_last [naj, edge_attr] = Inr c"
      using ea True by (simp add: cat_last_two c_def naj_def E_def)
    have wfc: "wf_tensor c"
      using wfj ea True
      by (simp add: c_def wf_tensor_def list_all_length naj_def E_def)
    have "size0 edge_weight = size0 c"
      using ew by (simp add: c_def E_def)
    from mul_scalar_rows [OF wfc this ew(2)]
    have "mul edge_weight c = Inr (message_spec edge_index node_attr edge_attr edge_weight hop)"
      using True ls
      by (simp add: message_spec_def E_def [symmetric] source_def [symmetric] Let_def c_def
            naj_def)
    then show ?thesis
      using True by (simp add: message_def sel gather cat ebind_def)
  qed
qed

lemma message_spec_wf:
  fixes node_attr :: "('a::semiring_0) tensor"
  assumes "wf_tensor edge_index" "size0 edge_index = 2" "wf_tensor node_attr"
    and "in_range (size0 node_attr) (data edge_index ! 0)"
    and "hop = 1 \<longrightarrow> wf_tensor edge_attr \<and> size0 edge_attr = size1 edge_index"
  shows "wf_tensor (message_spec edge_index node_attr edge_attr edge_weight hop)"
proof -
  have ls: "length (data edge_index ! 0) = size1 edge_index"
    using assms(1,2) by (simp add: wf_row_length)
  have "length (data node_attr ! nat (data edge_index ! 0 ! e)) = size1 node_attr"
    if "e < size1 edge_index" for e
  proof -
    have "0 \<le> data edge_index ! 0 ! e \<and> data edge_index ! 0 ! e < int (size0 node_attr)"
      using assms(4) that ls by (simp add: in_range_def list_all_length)
    then show ?thesis
      using assms(3) by (intro wf_row_length) auto
  qed
  moreover have "length (data edge_attr ! e) = size1 edge_attr"
    if "e < size1 edge_index" "hop = 1" for e
    using assms(5) that by (simp add: wf_row_length)
  ultimately show ?thesis
    by (simp add: message_spec_def wf_tensor_def list_all_length Let_def)
qed

text \<open>
  Claim C2.  On an edge list of two rows whose sources are nodes, with one
  weight for every edge (and, at hop 1, one feature row for every edge),
  \<open>message\<close> returns one row for every edge \<open>e\<close>: at hop 1 the weight of \<open>e\<close>
  times the features of the source of \<open>e\<close> followed by the features of \<open>e\<close>;
  at any other hop the weight of \<open>e\<close> times the features of the source of \<open>e\<close>.
\<close>

theorem message_per_edge:
  fixes node_attr :: "('a::semiring_0) tensor"
  assumes "wf_tensor edge_index" and "size0 edge_index = 2"
    and "wf_tensor node_attr"
    and "size0 edge_weight = size1 edge_index" and "size1 edge_weight = 1"
    and "in_range (size0 node_attr) (data edge_index ! 0)"
    and "hop = 1 \<longrightarrow> wf_tensor edge_attr \<and> size0 edge_attr = size1 edge_index"
  shows "\<exists>m. message edge_index node_attr edge_attr edge_weight hop = Inr m
           \<and> m = message_spec edge_index node_attr edge_attr edge_weight hop
           \<and> size0 m = size1 edge_index
           \<and> (\<forall>e < size1 edge_index.
                data m ! e =
                  (if hop = 1
                   then map (\<lambda>x. data edge_weight ! e ! 0 * x)
                          (data node_attr ! nat (data edge_index ! 0 ! e) @ data edge_attr ! e)
                   else map (\<lambda>x. data edge_weight ! e ! 0 * x)
                          (data node_attr ! nat (data edge_index ! 0 ! e))))"
proof -
  have "message edge_index node_attr edge_attr edge_weight hop =
        Inr (message_spec edge_index node_attr edge_attr edge_weight hop)"
    using assms by (intro message_eq) (simp_all add: in_range_def)
  then show ?thesis
    by (simp add: message_spec_def Let_def)
qed

theorem message_per_edge_witness:
  "message ex_edge_index ex_node_attr ex_edge_attr ex_edge_weight 1 =
     Inr \<lparr>size0 = 3, size1 = 3, data = [[2, 4, 20], [9, 12, 60], [3, 4, 30]]\<rparr> \<and>
   message ex_edge_index ex_node_attr ex_edge_attr ex_edge_weight 2 =
     Inr \<lparr>size0 = 3, size1 = 2, data = [[2, 4], [9, 12], [3, 4]]\<rparr>"
proof -
  have "message_spec ex_edge_index ex_node_attr ex_edge_attr ex_edge_weight 1 =
          \<lparr>size0 = 3, size1 = 3, data = [[2, 4, 20], [9, 12, 60], [3, 4, 30]]\<rparr>"
    "message_spec ex_edge_index ex_node_attr ex_edge_attr ex_edge_weight 2 =
          \<lparr>size0 = 3, size1 = 2, data = [[2, 4], [9, 12], [3, 4]]\<rparr>"
    by code_simp+
  moreover have "wf_tensor ex_edge_index" "size0 ex_edge_index = 2" "wf_tensor ex_node_attr"
    "size0 ex_edge_weight = size1 ex_edge_index" "size1 ex_edge_weight = 1"
    "in_range (size0 ex_node_attr) (data ex_edge_index ! 0)"
    "wf_tensor ex_edge_attr \<and> size0 ex_edge_attr = size1 ex_edge_index"
    using ex_graph_shapes ex_nodes_ok by (simp_all add: graph_shapes_def nodes_ok_def)
  ultimately show ?thesis
    using message_per_edge [of ex_edge_index ex_node_attr ex_edge_weight 1 ex_edge_attr]
      message_per_edge [of ex_edge_index ex_node_attr ex_edge_weight 2 ex_edge_attr]
    by simp
qed

section \<open>propagate on a valid graph\<close>

lemma propagate_eq:
  fixes node_attr :: "('a::semiring_0) tensor"
  assumes g: "graph_shapes edge_index edge_attr edge_weight"
    and n: "nodes_ok edge_index node_attr"
  shows "propagate edge_index node_attr edge_attr edge_weight hop =
         Inr (scatter_sum (data edge_index ! 1)
                (message_spec edge_index node_attr edge_attr edge_weight hop)
                (int (size0 node_attr)))"
proof -
  let ?m = "message_spec edge_index node_attr edge_attr edge_weight hop"
  have ei: "wf_tensor edge_index" "size0 edge_index = 2"
    using g by (simp_all add: graph_shapes_def)
  have ea: "hop = 1 \<longrightarrow> wf_tensor edge_attr \<and> size0 edge_attr = size1 edge_index"
    using g by (simp add: graph_shapes_def)
  have na: "wf_tensor node_attr" "in_range (size0 node_attr) (data edge_index ! 0)"
    using n by (simp_all add: nodes_ok_def)
  have msg: "message edge_index node_attr edge_attr edge_weight hop = Inr ?m"
    using ei na(1) g na(2) ea
    by (intro message_eq) (simp_all add: graph_shapes_def in_range_def)
  have wfm: "wf_tensor ?m"
    using ei na ea by (rule message_spec_wf)
  have "aggregate edge_index ?m (int (size0 node_attr)) =
        Inr (scatter_sum (data edge_index ! 1) ?m (int (size0 node_attr)))"
    using ei wfm n
    by (intro aggregate_eq) (simp_all add: message_spec_def nodes_ok_def in_range_def)
  then show ?thesis
    using n by (simp add: propagate_def msg ebind_def to_int32_id nodes_ok_def)
qed

lemma propagate_result:
  fixes node_attr :: "('a::semiring_0) tensor"
  assumes g: "graph_shapes edge_index edge_attr edge_weight"
    and n: "nodes_ok edge_index node_attr"
  shows "\<exists>out. propagate edge_index node_attr edge_attr edge_weight hop = Inr out
           \<and> wf_tensor out \<and> size0 out = size0 node_attr
           \<and> size1 out = (if hop = 1 then size1 node_attr + size1 edge_attr else size1 node_attr)"
proof -
  let ?m = "message_spec edge_index node_attr edge_attr edge_weight hop"
  have ei: "wf_tensor edge_index" "size0 edge_index = 2"
    using g by (simp_all add: graph_shapes_def)
  have ea: "hop = 1 \<longrightarrow> wf_tensor edge_attr \<and> size0 edge_attr = size1 edge_index"
    using g by (simp add: graph_shapes_def)
  have na: "wf_tensor node_attr" "in_range (size0 node_attr) (data edge_index ! 0)"
    using n by (simp_all add: nodes_ok_def)
  have wfm: "wf_tensor ?m"
    using ei na ea by (rule message_spec_wf)
  have "length (data edge_index ! 1) = size0 ?m"
    using ei by (simp add: wf_row_length message_spec_def)
  with wfm have "wf_tensor (scatter_sum (data edge_index ! 1) ?m (int (size0 node_attr)))"
    by (rule scatter_sum_wf)
  then show ?thesis
    unfolding propagate_eq [OF g n]
    by (simp add: scatter_sum_def message_spec_def)
qed

section \<open>The constructor of the dense block\<close>

lemma push_hidden_eq:
  "push_hidden a b p nrm m =
     (if p > 1 then Inl DropoutRange else Inr (m @ hidden_layer a b p nrm))"
  by (simp add: push_hidden_def hidden_layer_def Dropout_new_def ebind_def Let_def)

lemma hidden_loop_eq:
  "1 \<le> i \<Longrightarrow> i \<le> length hs \<Longrightarrow> \<not> p > 1 \<Longrightarrow>
   hidden_loop hs p nrm i m = Inr (m @ hidden_layers (hs ! (i - 1)) (drop i hs) p nrm)"
proof (induction hs p nrm i m rule: hidden_loop.induct)
  case (1 hs p nrm i m)
  show ?case
  proof (cases "i < length hs")
    case True
    have step: "push_hidden (hs ! (i - 1)) (hs ! i) p nrm m =
                Inr (m @ hidden_layer (hs ! (i - 1)) (hs ! i) p nrm)"
      using "1.prems" by (simp add: push_hidden_eq)
    have "hidden_loop hs p nrm (i + 1) (m @ hidden_layer (hs ! (i - 1)) (hs ! i) p nrm) =
          Inr ((m @ hidden_layer (hs ! (i - 1)) (hs ! i) p nrm) @
               hidden_layers (hs ! (i + 1 - 1)) (drop (i + 1) hs) p nrm)"
      using True "1.prems" by (intro "1.IH" [OF True step]) simp_all
    moreover have "drop i hs = hs ! i # drop (i + 1) hs"
      using True by (simp add: Cons_nth_drop_Suc)
    ultimately show ?thesis
      using True step by (subst hidden_loop.simps) simp
  next
    case False
    then show ?thesis
      using "1.prems" by (subst hidden_loop.simps) simp
  qed
qed

lemma MLP_new_eq:
  "MLP_new e i hs out p nrm =
     (if i < 1
      then Inl (InvalidArgument ''MLPImpl::MLPImpl: input_size cannot be less than one.'')
      else if out < 1
      then Inl (InvalidArgument ''MLPImpl::MLPImpl: output_size cannot be less than one.'')
      else if hs = []
      then Inl (InvalidArgument ''MLPImpl::MLPImpl: hidden_sizes cannot be empty.'')
      else if list_ex (\<lambda>it. it < 1) hs
      then Inl (InvalidArgument
                 ''MLPImpl::MLPImpl: All components of hidden_sizes must be greater than zero.'')
      else if p > 1 then Inl DropoutRange
      else Inr \<lparr>model = dense_block_layers e i hs out p nrm\<rparr>)"
proof (cases "hs = [] \<or> p > 1")
  case True
  then show ?thesis
    by (auto simp: MLP_new_def push_hidden_eq ebind_def)
next
  case False
  then obtain h hs' where hs: "hs = h # hs'"
    by (cases hs) auto
  have "hidden_loop hs p nrm 1 m = Inr (m @ hidden_layers h hs' p nrm)" for m
    using False hidden_loop_eq [of 1 hs p nrm m] by (simp add: hs)
  then show ?thesis
    using False
    by (simp add: MLP_new_def push_hidden_eq ebind_def hs dense_block_layers_def Let_def)
qed

lemma MLP_new_Inr:
  "MLP_new e i hs out p nrm = Inr m \<longleftrightarrow>
     \<not> size_violation i hs out \<and> \<not> p > 1 \<and> m = \<lparr>model = dense_block_layers e i hs out p nrm\<rparr>"
  by (auto simp: MLP_new_eq size_violation_def)

lemma MLP_new_invalid:
  "is_invalid_argument (MLP_new e i hs out p nrm) \<longleftrightarrow> size_violation i hs out"
  by (simp add: MLP_new_eq size_violation_def)

lemma hidden_layers_nonpos:
  "p \<le> 0 \<Longrightarrow> hidden_layers a hs p nrm = hidden_layers a hs 0 nrm"
  by (induction hs arbitrary: a) (simp_all add: hidden_layer_def)

lemma hidden_layers_no_dropout:
  "p \<le> 0 \<Longrightarrow> \<not> list_ex is_dropout (hidden_layers a hs p nrm)"
  by (induction hs arbitrary: a) (simp_all add: hidden_layer_def)

lemma dense_block_nonpos:
  assumes "p \<le> 0"
  shows "dense_block_layers e i hs out p nrm = dense_block_layers e i hs out 0 nrm"
    and "\<not> list_ex is_dropout (dense_block_layers e i hs out p nrm)"
  using assms hidden_layers_no_dropout [OF assms, of i hs nrm]
  by (simp_all add: dense_block_layers_def hidden_layers_nonpos [OF assms])

text \<open>
  Claim C10, as the code has it.  The constructor of the dense block has no
  check of its own on \<open>dropout_prob\<close>: whether it raises \<open>InvalidArgument\<close> does
  not depend on \<open>dropout_prob\<close>.  Every \<open>dropout_prob\<close> of at most 1, a negative
  one too, is accepted whenever 0 is; every \<open>dropout_prob \<le> 0\<close> gives the
  model that 0 gives, and that model has no dropout layer.  A \<open>dropout_prob\<close>
  above 1 reaches the constructor of the dropout layer, which refuses it.
\<close>

theorem dropout_prob_unchecked:
  "(is_invalid_argument (MLP_new e i hs out p nrm) \<longleftrightarrow>
      is_invalid_argument (MLP_new e i hs out 0 nrm))
   \<and> (p \<le> 1 \<longrightarrow> (isl (MLP_new e i hs out p nrm) \<longleftrightarrow> isl (MLP_new e i hs out 0 nrm)))
   \<and> (p \<le> 0 \<longrightarrow>
        MLP_new e i hs out p nrm = MLP_new e i hs out 0 nrm \<and>
        (\<forall>m. MLP_new e i hs out p nrm = Inr m \<longrightarrow> \<not> list_ex is_dropout (model m)))
   \<and> (1 < p \<and> \<not> size_violation i hs out \<longrightarrow> MLP_new e i hs out p nrm = Inl DropoutRange)"
proof -
  have "isl (MLP_new e i hs out p nrm) \<longleftrightarrow> isl (MLP_new e i hs out 0 nrm)" if "p \<le> 1"
    using that by (simp add: MLP_new_eq)
  moreover have "MLP_new e i hs out p nrm = MLP_new e i hs out 0 nrm" if "p \<le> 0"
    using that by (simp add: MLP_new_eq dense_block_nonpos(1) [OF that])
  moreover have "\<not> list_ex is_dropout (model m)"
    if "p \<le> 0" "MLP_new e i hs out p nrm = Inr m" for m
    using that dense_block_nonpos(2) [OF that(1), of e i hs out nrm]
    by (simp add: MLP_new_Inr)
  moreover have "MLP_new e i hs out p nrm = Inl DropoutRange"
    if "1 < p" "\<not> size_violation i hs out"
    using that by (simp add: MLP_new_eq size_violation_def)
  ultimately show ?thesis
    by (simp add: MLP_new_invalid)
qed

theorem dropout_prob_unchecked_witness:
  "MLP_new True 3 [4, 5] 1 (- 1) True = MLP_new True 3 [4, 5] 1 0 True \<and>
   \<not> isl (MLP_new True 3 [4, 5] 1 (- 1) True) \<and>
   \<not> isl (MLP_new True 3 [4, 5] 1 (1 / 2) True) \<and>
   \<not> list_ex is_dropout (model (projr (MLP_new True 3 [4, 5] 1 (- 1) True))) \<and>
   MLP_new True 3 [4, 5] 1 (3 / 2) True = Inl DropoutRange"
proof -
  have ok: "MLP_new True 3 [4, 5] 1 0 True =
        Inr \<lparr>model = [Linear 3 4, LayerNorm 4, Activation, Linear 4 5, LayerNorm 5, Activation,
                     Linear 5 1]\<rparr>"
    by code_simp
  have v: "\<not> size_violation 3 [4, 5] 1"
    by (simp add: size_violation_def)
  show ?thesis
    using dropout_prob_unchecked [of True 3 "[4, 5]" 1 "- 1" True]
      dropout_prob_unchecked [of True 3 "[4, 5]" 1 "1 / 2" True]
      dropout_prob_unchecked [of True 3 "[4, 5]" 1 "3 / 2" True] v
    by (simp add: ok)
qed

theorem dropout_prob_counterexample:
  "MLP_new True 3 [64, 64] 1 2 True = Inl DropoutRange"
  by (simp add: MLP_new_eq)

section \<open>Widths through the dense block\<close>

lemma seq_cols_append:
  "seq_cols (xs @ ys) c = (case seq_cols xs c of Inl e \<Rightarrow> Inl e | Inr c' \<Rightarrow> seq_cols ys c')"
  by (induction xs arbitrary: c) (simp_all split: sum.splits)

lemma seq_cols_hidden_layer:
  "0 \<le> b \<Longrightarrow>
   seq_cols (hidden_layer a b p nrm) c = (if int c = a then Inr (nat b) else Inl ShapeError)"
  by (simp add: hidden_layer_def)

lemma seq_cols_hidden_layers:
  "list_all (\<lambda>h. 1 \<le> h) hs \<Longrightarrow>
   seq_cols (hidden_layers a hs p nrm @ Linear (last (a # hs)) out # rest) c =
     (if int c = a then seq_cols rest (nat out) else Inl ShapeError)"
proof (induction hs arbitrary: a c)
  case Nil
  then show ?case by simp
next
  case (Cons h hs)
  then show ?case
    by (simp add: seq_cols_append seq_cols_hidden_layer)
qed

lemma seq_cols_dense_block:
  assumes "\<not> size_violation i hs out"
  shows "seq_cols (dense_block_layers e i hs out p nrm) c =
           (if int c = i then Inr (nat out) else Inl ShapeError)"
proof -
  have "list_all (\<lambda>h. 1 \<le> h) hs" "hs \<noteq> []"
    using assms by (auto simp: size_violation_def list_all_iff list_ex_iff)
  then show ?thesis
    using seq_cols_hidden_layers [of hs i p nrm out "if e then [] else [EndActivation]" c]
    by (simp add: dense_block_layers_def)
qed

lemma seq_forward_error:
  "seq_cols ls (size1 x) = Inl e \<Longrightarrow> seq_forward \<theta> pos ls x = Inl e"
proof (induction ls arbitrary: x pos)
  case Nil
  then show ?case by simp
next
  case (Cons l ls)
  then show ?case
    by (auto simp: layer_forward_def ebind_def split: sum.splits)
qed

lemma seq_forward_shape:
  "seq_cols ls (size1 x) = Inr c \<Longrightarrow> length (data x) = size0 x \<Longrightarrow>
   \<exists>y. seq_forward \<theta> pos ls x = Inr y \<and> size0 y = size0 x \<and> size1 y = c \<and>
       (ls \<noteq> [] \<longrightarrow> wf_tensor y)"
proof (induction ls arbitrary: x pos)
  case Nil
  then show ?case by simp
next
  case (Cons l ls)
  from Cons.prems obtain c' where c': "layer_cols l (size1 x) = Inr c'" "seq_cols ls c' = Inr c"
    by (auto split: sum.splits)
  define y where "y = \<lparr>size0 = size0 x, size1 = c',
                       data = map (\<lambda>i. map (\<lambda>j. \<theta> pos x i j) [0..<c']) [0..<size0 x]\<rparr>"
  have lf: "layer_forward \<theta> pos l x = Inr y"
    using c'(1) by (simp add: layer_forward_def ebind_def y_def)
  have wfy: "wf_tensor y"
    by (simp add: y_def wf_tensor_def list_all_length)
  have "seq_cols ls (size1 y) = Inr c" "length (data y) = size0 y"
    using c'(2) by (simp_all add: y_def)
  from Cons.IH [OF this, of "pos + 1"]
  obtain z where z: "seq_forward \<theta> (pos + 1) ls y = Inr z" "size0 z = size0 y" "size1 z = c"
    "ls \<noteq> [] \<longrightarrow> wf_tensor z"
    by blast
  have "wf_tensor z"
  proof (cases ls)
    case Nil
    then show ?thesis using z(1) wfy by simp
  next
    case Cons
    then show ?thesis using z(4) by simp
  qed
  then show ?case
    using z lf by (simp add: y_def)
qed

lemma MLP_forward_dense:
  assumes "\<not> size_violation i hs out" and "length (data x) = size0 x"
    and "int (size1 x) = i"
  shows "\<exists>y. MLP_forward \<theta> \<lparr>model = dense_block_layers e i hs out p nrm\<rparr> x = Inr y \<and>
             size0 y = size0 x \<and> size1 y = nat out \<and> wf_tensor y"
proof -
  have cols: "seq_cols (dense_block_layers e i hs out p nrm) (size1 x) = Inr (nat out)"
    using assms(1,3) by (simp add: seq_cols_dense_block)
  have "dense_block_layers e i hs out p nrm \<noteq> []"
    by (simp add: dense_block_layers_def)
  then show ?thesis
    using seq_forward_shape [OF cols assms(2), of \<theta> 0] by (auto simp: MLP_forward_def)
qed

lemma MLP_forward_mismatch:
  assumes "\<not> size_violation i hs out" and "int (size1 x) \<noteq> i"
  shows "MLP_forward \<theta> \<lparr>model = dense_block_layers e i hs out p nrm\<rparr> x = Inl ShapeError"
proof -
  have "seq_cols (dense_block_layers e i hs out p nrm) (size1 x) = Inl ShapeError"
    using assms by (simp add: seq_cols_dense_block)
  then show ?thesis
    by (simp add: MLP_forward_def seq_forward_error)
qed

lemma MLP_forward_result_shape:
  assumes "\<not> size_violation i hs out" and "length (data x) = size0 x"
    and "MLP_forward \<theta> \<lparr>model = dense_block_layers e i hs out p nrm\<rparr> x = Inr y"
  shows "size0 y = size0 x \<and> size1 y = nat out"
proof (cases "int (size1 x) = i")
  case True
  from MLP_forward_dense [OF assms(1,2) True, of \<theta> e p nrm] assms(3) show ?thesis
    by auto
next
  case False
  from MLP_forward_mismatch [OF assms(1) False, of \<theta> e p nrm] assms(3) show ?thesis
    by simp
qed

section \<open>The constructor of the convolution\<close>

lemma GATConv_new_eq:
  assumes "\<not> width_violation a hs out b c"
  shows "GATConv_new e a hs out b c p nrm =
           (if dense_input_width a b c > 2147483647 then Inl SignedOverflow
            else if p > 1 then Inl DropoutRange
            else Inr \<lparr>GATConv.mlp = \<lparr>model = dense_block_layers e (dense_input_width a b c) hs out p nrm\<rparr>\<rparr>)"
proof -
  have pos: "1 \<le> a" "1 \<le> out" "1 \<le> b" "1 \<le> c" "hs \<noteq> []" "\<not> list_ex (\<lambda>h. h < 1) hs"
    using assms by (auto simp: width_violation_def)
  show ?thesis
  proof (cases "dense_input_width a b c > 2147483647")
    case True
    then show ?thesis
      using pos
      by (auto simp: GATConv_new_def ebind_def int_ok_def dense_input_width_def
               split: sum.splits)
  next
    case False
    then have "int_ok (5 * a) = Inr (5 * a)" "int_ok (5 * a + b) = Inr (5 * a + b)"
      "int_ok (4 * c) = Inr (4 * c)" "int_ok (5 * a + b + 4 * c) = Inr (5 * a + b + 4 * c)"
      using pos by (simp_all add: int_ok_def dense_input_width_def)
    then show ?thesis
      using pos False
      by (simp add: GATConv_new_def ebind_def MLP_new_eq dense_input_width_def)
  qed
qed

lemma GATConv_new_violation:
  assumes "width_violation a hs out b c"
  shows "is_invalid_argument (GATConv_new e a hs out b c p nrm)"
  using assms by (auto simp: GATConv_new_def width_violation_def)

lemma GATConv_new_Inr:
  "GATConv_new e a hs out b c p nrm = Inr g \<longleftrightarrow>
     \<not> width_violation a hs out b c \<and> dense_input_width a b c \<le> 2147483647 \<and> \<not> p > 1 \<and>
     g = \<lparr>GATConv.mlp = \<lparr>model = dense_block_layers e (dense_input_width a b c) hs out p nrm\<rparr>\<rparr>"
proof (cases "width_violation a hs out b c")
  case True
  then show ?thesis
    using GATConv_new_violation [OF True, of e p nrm]
    by (cases "GATConv_new e a hs out b c p nrm") auto
next
  case False
  then show ?thesis
    by (auto simp: GATConv_new_eq)
qed

lemma size_violation_of_width:
  "\<not> width_violation a hs out b c \<Longrightarrow> \<not> size_violation (dense_input_width a b c) hs out"
  by (auto simp: width_violation_def size_violation_def dense_input_width_def)

text \<open>
  Claim C7, as the code has it.  The constructor of the dense block raises
  \<open>InvalidArgument\<close> exactly when a size constraint is violated: the input size or the output
  size is below 1, the hidden sizes are empty, or a hidden size is below 1.
  The constructor of the convolution, when its width sum fits an \<^verbatim>\<open>int\<close>,
  raises \<open>InvalidArgument\<close> exactly when a width is below 1, the hidden sizes
  are empty, or a hidden size is below 1.  With no violation and a dropout
  probability of at most 1, both constructions succeed.
\<close>

theorem constructors_config_error:
  "(is_invalid_argument (MLP_new e i hs out p nrm) \<longleftrightarrow> size_violation i hs out)
   \<and> (width_violation a hs' out' b c \<or> dense_input_width a b c \<le> 2147483647 \<longrightarrow>
        (is_invalid_argument (GATConv_new e a hs' out' b c p nrm) \<longleftrightarrow>
           width_violation a hs' out' b c))
   \<and> (\<not> size_violation i hs out \<and> p \<le> 1 \<longrightarrow> \<not> isl (MLP_new e i hs out p nrm))
   \<and> (\<not> width_violation a hs' out' b c \<and> dense_input_width a b c \<le> 2147483647 \<and> p \<le> 1 \<longrightarrow>
        \<not> isl (GATConv_new e a hs' out' b c p nrm))"
proof -
  have "is_invalid_argument (GATConv_new e a hs' out' b c p nrm) \<longleftrightarrow>
        width_violation a hs' out' b c"
    if "width_violation a hs' out' b c \<or> dense_input_width a b c \<le> 2147483647"
  proof (cases "width_violation a hs' out' b c")
    case True
    then show ?thesis by (simp add: GATConv_new_violation)
  next
    case False
    then show ?thesis using that by (simp add: GATConv_new_eq)
  qed
  moreover have "\<not> isl (MLP_new e i hs out p nrm)" if "\<not> size_violation i hs out" "p \<le> 1"
    using that by (simp add: MLP_new_eq size_violation_def)
  moreover have "\<not> isl (GATConv_new e a hs' out' b c p nrm)"
    if "\<not> width_violation a hs' out' b c" "dense_input_width a b c \<le> 2147483647" "p \<le> 1"
    using that by (simp add: GATConv_new_eq)
  ultimately show ?thesis
    by (simp add: MLP_new_invalid)
qed

theorem constructors_config_error_witness:
  "is_invalid_argument (MLP_new True 0 [4] 1 0 True) \<and>
   is_invalid_argument (GATConv_new True 3 [] 2 3 2 0 True) \<and>
   \<not> is_invalid_argument (MLP_new True 3 [4] 1 0 True) \<and>
   \<not> is_invalid_argument (GATConv_new True 3 [4] 2 3 2 0 True) \<and>
   \<not> isl (MLP_new True 3 [4] 1 0 True) \<and>
   \<not> isl (GATConv_new True 3 [4] 2 3 2 0 True)"
  using constructors_config_error [of True 0 "[4]" 1 0 True 3 "[]" 2 3 2]
    constructors_config_error [of True 3 "[4]" 1 0 True 3 "[4]" 2 3 2]
  by (simp add: size_violation_def width_violation_def dense_input_width_def)

theorem constructors_config_error_counterexample:
  "\<not> width_violation 3 [64, 64] 32 3 3 \<and>
   GATConv_new True 3 [64, 64] 32 3 3 2 True = Inl DropoutRange \<and>
   \<not> size_violation 64 [80, 80] 1 \<and>
   MLP_new True 64 [80, 80] 1 2 True = Inl DropoutRange"
  by (simp add: GATConv_new_eq MLP_new_eq width_violation_def size_violation_def
        dense_input_width_def)

section \<open>The forward pass of the convolution\<close>

lemma flip0_rows:
  assumes "wf_tensor t" "size0 t = 2"
  shows "data (flip0 t) = [data t ! 1, data t ! 0]"
    and "size0 (flip0 t) = 2" and "size1 (flip0 t) = size1 t" and "wf_tensor (flip0 t)"
proof -
  show "data (flip0 t) = [data t ! 1, data t ! 0]"
    using two_rows [OF assms] by (simp add: flip0_def)
  show "size0 (flip0 t) = 2" "size1 (flip0 t) = size1 t"
    using assms by (simp_all add: flip0_def)
  show "wf_tensor (flip0 t)"
    using assms by (simp add: flip0_def wf_tensor_def list_all_iff)
qed

lemma graph_shapes_flip0:
  "graph_shapes ei ea ew \<Longrightarrow> graph_shapes (flip0 ei) ea ew"
  by (simp add: graph_shapes_def flip0_rows)

lemma nodes_ok_flip0:
  "wf_tensor ei \<Longrightarrow> size0 ei = 2 \<Longrightarrow> nodes_ok ei x \<Longrightarrow> nodes_ok (flip0 ei) x"
  by (simp add: nodes_ok_def flip0_rows)

lemma nodes_ok_same_rows:
  "nodes_ok ei x \<Longrightarrow> wf_tensor y \<Longrightarrow> size0 y = size0 x \<Longrightarrow> nodes_ok ei y"
  by (simp add: nodes_ok_def)

lemma flip0_swap:
  assumes "wf_tensor t" "size0 t = 2"
  shows "flip0 t = swap_source_target t"
  using flip0_rows(1) [OF assms] by (simp add: flip0_def swap_source_target_def)

lemma cat_last_six:
  "cat_last [a, b, c, d, e, f] =
     (if size0 b = size0 a \<and> size0 c = size0 a \<and> size0 d = size0 a \<and> size0 e = size0 a \<and>
         size0 f = size0 a
      then Inr (concat6 a b c d e f) else Inl ShapeError)"
  by (simp add: cat_last_def concat6_def add.assoc)

lemma GATConv_forward_eq_spec:
  assumes "wf_tensor edge_index" "size0 edge_index = 2"
  shows "GATConv_forward \<theta> g edge_index node_attr edge_attr edge_weight initial_node_attr =
         GATConv_forward_spec \<theta> g edge_index node_attr edge_attr edge_weight initial_node_attr"
  unfolding GATConv_forward_def GATConv_forward_spec_def Let_def flip0_swap [OF assms]
    cat_last_six ebind_def
  by (simp split: sum.splits)

text \<open>
  Claim C1.  On an edge list of two rows, \<open>GATConv_forward\<close> is the
  computation the specification describes: the reversed edge list is the
  edge list with its source and target rows swapped; the four propagations
  run in the order one-hop incoming, one-hop outgoing, two-hop incoming,
  two-hop outgoing, the two-hop ones on the one-hop results; the six blocks
  are concatenated row by row in the order initial features, node features,
  one-hop incoming, one-hop outgoing, two-hop incoming, two-hop outgoing;
  the dense block's result on the concatenation is returned.
\<close>

theorem GATConv_forward_structure:
  assumes "wf_tensor edge_index" and "size0 edge_index = 2"
  shows "GATConv_forward \<theta> g edge_index node_attr edge_attr edge_weight initial_node_attr =
         GATConv_forward_spec \<theta> g edge_index node_attr edge_attr edge_weight initial_node_attr"
  using assms by (rule GATConv_forward_eq_spec)

theorem GATConv_forward_structure_witness:
  "GATConv_forward ex_params ex_conv ex_edge_index ex_node_attr ex_edge_attr ex_edge_weight
     ex_node_attr =
   Inr \<lparr>size0 = 3, size1 = 4,
        data = [[8316, 8316, 8316, 8316], [4698, 4698, 4698, 4698], [6588, 6588, 6588, 6588]]\<rparr>"
proof -
  have "GATConv_forward_spec ex_params ex_conv ex_edge_index ex_node_attr ex_edge_attr
          ex_edge_weight ex_node_attr =
        Inr \<lparr>size0 = 3, size1 = 4,
             data = [[8316, 8316, 8316, 8316], [4698, 4698, 4698, 4698],
                     [6588, 6588, 6588, 6588]]\<rparr>"
    by code_simp
  moreover have "wf_tensor ex_edge_index" "size0 ex_edge_index = 2"
    using ex_graph_shapes by (simp_all add: graph_shapes_def)
  ultimately show ?thesis
    using GATConv_forward_structure [of ex_edge_index ex_params ex_conv ex_node_attr
        ex_edge_attr ex_edge_weight ex_node_attr]
    by simp
qed

lemma GATConv_forward_ok:
  fixes node_attr :: "('a::semiring_0) tensor"
  assumes new: "GATConv_new e a hs out b c p nrm = Inr g"
    and g: "graph_shapes edge_index edge_attr edge_weight"
    and n: "nodes_ok edge_index node_attr"
    and ini: "size0 initial_node_attr = size0 node_attr"
    and w: "int (size1 node_attr) = a" "int (size1 edge_attr) = c"
      "int (size1 initial_node_attr) = b"
  shows "\<exists>y. GATConv_forward \<theta> g edge_index node_attr edge_attr edge_weight
               initial_node_attr = Inr y \<and>
             size0 y = size0 node_attr \<and> size1 y = nat out \<and> wf_tensor y"
proof -
  have ei: "wf_tensor edge_index" "size0 edge_index = 2"
    using g by (simp_all add: graph_shapes_def)
  have g': "graph_shapes (flip0 edge_index) edge_attr edge_weight"
    using g by (rule graph_shapes_flip0)
  have n': "nodes_ok (flip0 edge_index) node_attr"
    using ei n by (rule nodes_ok_flip0)
  from propagate_result [OF g n, of 1] obtain ohi
    where ohi: "propagate edge_index node_attr edge_attr edge_weight 1 = Inr ohi"
      "wf_tensor ohi" "size0 ohi = size0 node_attr"
      "size1 ohi = size1 node_attr + size1 edge_attr"
    by auto
  from propagate_result [OF g' n', of 1] obtain oho
    where oho: "propagate (flip0 edge_index) node_attr edge_attr edge_weight 1 = Inr oho"
      "wf_tensor oho" "size0 oho = size0 node_attr"
      "size1 oho = size1 node_attr + size1 edge_attr"
    by auto
  have n2: "nodes_ok edge_index ohi"
    using n ohi(2,3) by (rule nodes_ok_same_rows)
  have n2': "nodes_ok (flip0 edge_index) oho"
    using n' oho(2,3) by (rule nodes_ok_same_rows)
  from propagate_result [OF g n2, of 2] obtain thi
    where thi: "propagate edge_index ohi edge_attr edge_weight 2 = Inr thi"
      "size0 thi = size0 node_attr" "size1 thi = size1 node_attr + size1 edge_attr"
    using ohi by auto
  from propagate_result [OF g' n2', of 2] obtain tho
    where tho: "propagate (flip0 edge_index) oho edge_attr edge_weight 2 = Inr tho"
      "size0 tho = size0 node_attr" "size1 tho = size1 node_attr + size1 edge_attr"
    using oho by auto
  define x where "x = concat6 initial_node_attr node_attr ohi oho thi tho"
  have cat: "cat_last [initial_node_attr, node_attr, ohi, oho, thi, tho] = Inr x"
    using ini ohi oho thi tho by (simp add: cat_last_six x_def)
  have x: "length (data x) = size0 x" "size0 x = size0 node_attr"
    "int (size1 x) = dense_input_width a b c"
    using ini ohi oho thi tho w by (auto simp: x_def concat6_def dense_input_width_def)
  from new have v: "\<not> width_violation a hs out b c"
    and gm: "GATConv.mlp g = \<lparr>model = dense_block_layers e (dense_input_width a b c) hs out p nrm\<rparr>"
    by (auto simp: GATConv_new_Inr)
  from MLP_forward_dense [OF size_violation_of_width [OF v] x(1,3), of \<theta> e p nrm]
  obtain y where "MLP_forward \<theta> (GATConv.mlp g) x = Inr y" "size0 y = size0 x"
    "size1 y = nat out" "wf_tensor y"
    unfolding gm by blast
  then show ?thesis
    using x(2) by (simp add: GATConv_forward_def Let_def ohi oho thi tho cat ebind_def)
qed

text \<open>
  Claim C8.  The dense block of a constructed \<open>GATConv\<close> starts with a linear
  layer of input width \<open>5 * input_node_width + initial_node_width + 4 * edge_width\<close>
  and raises \<open>ShapeError\<close> on an input of any other width.
  On a graph with consistent shapes and indices, whose node, edge and initial
  features have the widths the layer was constructed with, \<open>GATConv_forward\<close>
  raises no error and returns a tensor with one row for every node and
  \<open>output_node_width\<close> columns.
\<close>

theorem GATConv_forward_shape:
  fixes node_attr :: "('a::semiring_0) tensor"
  assumes "GATConv_new end_identity input_node_width hidden_sizes output_node_width
             initial_node_width edge_width dropout_prob use_normalization = Inr g"
    and "graph_shapes edge_index edge_attr edge_weight"
    and "nodes_ok edge_index node_attr"
    and "size0 initial_node_attr = size0 node_attr"
    and "int (size1 node_attr) = input_node_width"
    and "int (size1 edge_attr) = edge_width"
    and "int (size1 initial_node_attr) = initial_node_width"
  shows "hd (model (GATConv.mlp g)) =
           Linear (5 * input_node_width + initial_node_width + 4 * edge_width)
             (hd hidden_sizes)
         \<and> (\<forall>x :: 'a tensor.
               int (size1 x) \<noteq> 5 * input_node_width + initial_node_width + 4 * edge_width \<longrightarrow>
               MLP_forward \<theta> (GATConv.mlp g) x = Inl ShapeError)
         \<and> (\<exists>y. GATConv_forward \<theta> g edge_index node_attr edge_attr edge_weight
                   initial_node_attr = Inr y
                 \<and> size0 y = size0 node_attr \<and> size1 y = nat output_node_width
                 \<and> wf_tensor y)"
proof -
  from assms(1) have v: "\<not> width_violation input_node_width hidden_sizes output_node_width
                            initial_node_width edge_width"
    and gm: "GATConv.mlp g =
             \<lparr>model = dense_block_layers end_identity
                        (dense_input_width input_node_width initial_node_width edge_width)
                        hidden_sizes output_node_width dropout_prob use_normalization\<rparr>"
    by (auto simp: GATConv_new_Inr)
  from v obtain h hs where "hidden_sizes = h # hs"
    by (cases hidden_sizes) (auto simp: width_violation_def)
  then have "hd (model (GATConv.mlp g)) =
             Linear (5 * input_node_width + initial_node_width + 4 * edge_width)
               (hd hidden_sizes)"
    by (simp add: gm dense_block_layers_def hidden_layer_def dense_input_width_def)
  moreover have "MLP_forward \<theta> (GATConv.mlp g) x = Inl ShapeError"
    if "int (size1 x) \<noteq> 5 * input_node_width + initial_node_width + 4 * edge_width"
    for x :: "'a tensor"
    unfolding gm using size_violation_of_width [OF v] that
    by (intro MLP_forward_mismatch) (simp_all add: dense_input_width_def)
  ultimately show ?thesis
    using GATConv_forward_ok [OF assms, of \<theta>] by simp
qed

theorem GATConv_forward_shape_witness:
  "hd (model (GATConv.mlp ex_conv)) = Linear 16 3 \<and>
   (\<exists>y. GATConv_forward ex_params ex_conv ex_edge_index ex_node_attr ex_edge_attr
          ex_edge_weight ex_node_attr = Inr y
        \<and> size0 y = 3 \<and> size1 y = 4 \<and> wf_tensor y)"
proof -
  have "GATConv_new True 2 [3] 4 2 1 0 True = Inr ex_conv"
    by code_simp
  moreover have "int (size1 ex_node_attr) = 2" "int (size1 ex_edge_attr) = 1"
    "size0 ex_node_attr = 3"
    by (simp_all add: ex_node_attr_def ex_edge_attr_def)
  ultimately show ?thesis
    using GATConv_forward_shape [of True 2 "[3]" 4 2 1 0 True ex_conv ex_edge_index
        ex_edge_attr ex_edge_weight ex_node_attr ex_node_attr ex_params]
      ex_graph_shapes ex_nodes_ok
    by simp
qed

section \<open>An index that is not a node\<close>

lemma index_add0_out_of_range:
  assumes "\<not> in_range N idx" and "size0 z \<le> N"
  shows "isl (index_add0 z idx m)"
    and "length idx = size0 m \<Longrightarrow> size1 m = size1 z \<Longrightarrow> index_add0 z idx m = Inl IndexError"
proof -
  from assms(1) obtain i where i: "i \<in> set idx" "i < 0 \<or> int N \<le> i"
    by (auto simp: in_range_def list_all_iff)
  then have "\<not> (0 \<le> i \<and> i < int (size0 z))"
    using assms(2) by auto
  with i(1) have "\<not> list_all (\<lambda>i. 0 \<le> i \<and> i < int (size0 z)) idx"
    unfolding list_all_iff by blast
  then show "isl (index_add0 z idx m)"
    and "length idx = size0 m \<Longrightarrow> size1 m = size1 z \<Longrightarrow> index_add0 z idx m = Inl IndexError"
    by (simp_all add: index_add0_def)
qed

lemma aggregate_out_of_range:
  fixes m :: "('a::semiring_0) tensor"
  assumes "size0 edge_index = 2" and "\<not> in_range N (data edge_index ! 1)"
  shows "isl (aggregate edge_index m (to_int32 (int N)))"
proof (cases "to_int32 (int N) < 0")
  case True
  then show ?thesis
    using assms(1) by (simp add: aggregate_def select0_def zeros_def ebind_def)
next
  case False
  define z :: "'a tensor" where
    "z = \<lparr>size0 = nat (to_int32 (int N)), size1 = size1 m,
          data = replicate (nat (to_int32 (int N))) (replicate (size1 m) 0)\<rparr>"
  have "size0 z \<le> N"
    using to_int32_le [of N] by (simp add: z_def)
  with assms(2) have "isl (index_add0 z (data edge_index ! 1) m)"
    by (rule index_add0_out_of_range(1))
  then show ?thesis
    using assms(1) False by (simp add: aggregate_def select0_def zeros_def ebind_def z_def)
qed

lemma message_source_out_of_range:
  fixes node_attr :: "('a::semiring_0) tensor"
  assumes "size0 edge_index = 2" and "\<not> in_range (size0 node_attr) (data edge_index ! 0)"
  shows "message edge_index node_attr edge_attr edge_weight hop = Inl IndexError"
  using assms by (simp add: message_def select0_def index_select0_def ebind_def in_range_def)

lemma propagate_out_of_range:
  fixes node_attr :: "('a::semiring_0) tensor"
  assumes "wf_tensor edge_index" and "size0 edge_index = 2"
    and "\<not> (in_range (size0 node_attr) (data edge_index ! 0) \<and>
            in_range (size0 node_attr) (data edge_index ! 1))"
  shows "isl (propagate edge_index node_attr edge_attr edge_weight hop)"
proof (cases "in_range (size0 node_attr) (data edge_index ! 0)")
  case False
  then show ?thesis
    using assms(2) by (simp add: propagate_def message_source_out_of_range ebind_def)
next
  case True
  with assms(3) have "\<not> in_range (size0 node_attr) (data edge_index ! 1)"
    by simp
  then have "isl (aggregate edge_index m (to_int32 (int (size0 node_attr))))"
    for m :: "'a tensor"
    using assms(2) by (intro aggregate_out_of_range)
  then show ?thesis
    by (simp add: propagate_def ebind_def split: sum.splits)
qed

lemma propagate_index_error:
  fixes node_attr :: "('a::semiring_0) tensor"
  assumes g: "graph_shapes edge_index edge_attr edge_weight"
    and na: "wf_tensor node_attr" "size0 node_attr < 2147483648"
    and oob: "\<not> (in_range (size0 node_attr) (data edge_index ! 0) \<and>
                 in_range (size0 node_attr) (data edge_index ! 1))"
  shows "propagate edge_index node_attr edge_attr edge_weight hop = Inl IndexError"
proof (cases "in_range (size0 node_attr) (data edge_index ! 0)")
  case False
  then show ?thesis
    using g by (simp add: propagate_def message_source_out_of_range ebind_def graph_shapes_def)
next
  case True
  let ?m = "message_spec edge_index node_attr edge_attr edge_weight hop"
  have ei: "wf_tensor edge_index" "size0 edge_index = 2"
    using g by (simp_all add: graph_shapes_def)
  have msg: "message edge_index node_attr edge_attr edge_weight hop = Inr ?m"
    using ei na(1) g True
    by (intro message_eq) (simp_all add: graph_shapes_def in_range_def)
  have tgt: "\<not> in_range (size0 node_attr) (data edge_index ! 1)"
    using oob True by simp
  define z :: "'a tensor" where
    "z = \<lparr>size0 = size0 node_attr, size1 = size1 ?m,
          data = replicate (size0 node_attr) (replicate (size1 ?m) 0)\<rparr>"
  have "length (data edge_index ! 1) = size0 ?m"
    using ei by (simp add: wf_row_length message_spec_def)
  moreover have "size1 ?m = size1 z" "size0 z \<le> size0 node_attr"
    by (simp_all add: z_def)
  ultimately have "index_add0 z (data edge_index ! 1) ?m = Inl IndexError"
    using tgt by (intro index_add0_out_of_range(2))
  then show ?thesis
    using ei(2) na(2)
    by (simp add: propagate_def msg aggregate_def select0_def zeros_def ebind_def to_int32_id
          z_def)
qed

text \<open>
  Claim C9.  When an entry of the two-row edge list is not a node, no
  forward pass returns a tensor.  When the graph's shapes are otherwise
  consistent, the first propagation raises \<open>IndexError\<close>, in the gather of
  \<open>message\<close> or in the scatter of \<open>aggregate\<close>, and that is the error of the
  forward pass of the convolution and of the network.
\<close>

theorem out_of_range_index_error:
  fixes node_attr :: "('a::semiring_0) tensor"
  assumes "wf_tensor edge_index" and "size0 edge_index = 2"
    and "\<not> (in_range (size0 node_attr) (data edge_index ! 0) \<and>
            in_range (size0 node_attr) (data edge_index ! 1))"
  shows "isl (GATConv_forward \<theta> g edge_index node_attr edge_attr edge_weight
               initial_node_attr)
       \<and> isl (NN_forward \<theta>1 \<theta>2 \<theta>3 nn edge_index node_attr edge_attr edge_weight)
       \<and> (graph_shapes edge_index edge_attr edge_weight \<and> wf_tensor node_attr \<and>
            size0 node_attr < 2147483648 \<longrightarrow>
            propagate edge_index node_attr edge_attr edge_weight 1 = Inl IndexError \<and>
            GATConv_forward \<theta> g edge_index node_attr edge_attr edge_weight
              initial_node_attr = Inl IndexError \<and>
            NN_forward \<theta>1 \<theta>2 \<theta>3 nn edge_index node_attr edge_attr edge_weight =
              Inl IndexError)"
proof -
  have fails: "isl (propagate edge_index node_attr edge_attr edge_weight 1)"
    using assms by (rule propagate_out_of_range)
  have conv: "isl (GATConv_forward \<theta>' g' edge_index node_attr edge_attr edge_weight x)"
    for \<theta>' :: "'a params" and g' x
    unfolding GATConv_forward_def Let_def using fails by (rule ebind_isl)
  have net: "isl (NN_forward \<theta>1 \<theta>2 \<theta>3 nn edge_index node_attr edge_attr edge_weight)"
    unfolding NN_forward_def using conv by (rule ebind_isl)
  have "propagate edge_index node_attr edge_attr edge_weight 1 = Inl IndexError \<and>
        GATConv_forward \<theta> g edge_index node_attr edge_attr edge_weight
          initial_node_attr = Inl IndexError \<and>
        NN_forward \<theta>1 \<theta>2 \<theta>3 nn edge_index node_attr edge_attr edge_weight = Inl IndexError"
    if "graph_shapes edge_index edge_attr edge_weight" "wf_tensor node_attr"
      "size0 node_attr < 2147483648"
  proof -
    have err: "propagate edge_index node_attr edge_attr edge_weight 1 = Inl IndexError"
      using that assms(3) by (rule propagate_index_error)
    have conv_err: "GATConv_forward \<theta>' g' edge_index node_attr edge_attr edge_weight x =
                    Inl IndexError" for \<theta>' :: "'a params" and g' x
      unfolding GATConv_forward_def Let_def using err by (rule ebind_Inl)
    have "NN_forward \<theta>1 \<theta>2 \<theta>3 nn edge_index node_attr edge_attr edge_weight = Inl IndexError"
      unfolding NN_forward_def using conv_err by (rule ebind_Inl)
    with err conv_err show ?thesis
      by simp
  qed
  with conv net show ?thesis
    by blast
qed

theorem out_of_range_index_error_witness:
  "GATConv_forward ex_params ex_conv ex_bad_target ex_node_attr ex_edge_attr ex_edge_weight
     ex_node_attr = Inl IndexError \<and>
   GATConv_forward ex_params ex_conv ex_bad_source ex_node_attr ex_edge_attr ex_edge_weight
     ex_node_attr = Inl IndexError"
proof -
  have "wf_tensor ex_bad_target" "size0 ex_bad_target = 2"
    "\<not> in_range (size0 ex_node_attr) (data ex_bad_target ! 1)"
    "graph_shapes ex_bad_target ex_edge_attr ex_edge_weight"
    "wf_tensor ex_bad_source" "size0 ex_bad_source = 2"
    "\<not> in_range (size0 ex_node_attr) (data ex_bad_source ! 0)"
    "graph_shapes ex_bad_source ex_edge_attr ex_edge_weight"
    "wf_tensor ex_node_attr" "size0 ex_node_attr < 2147483648"
    by (simp_all add: graph_shapes_def wf_tensor_def in_range_def ex_bad_target_def
          ex_bad_source_def ex_node_attr_def ex_edge_attr_def ex_edge_weight_def)
  then show ?thesis
    using out_of_range_index_error [of ex_bad_target ex_node_attr ex_params ex_conv
        ex_edge_attr ex_edge_weight ex_node_attr]
      out_of_range_index_error [of ex_bad_source ex_node_attr ex_params ex_conv
        ex_edge_attr ex_edge_weight ex_node_attr]
    by simp
qed

section \<open>The network\<close>

lemma NN_new_Inr:
  assumes "NN_new e n h1 h2 hm outw edge p nrm k' = Inr nn"
  shows "NN.mlp nn = \<lparr>model = dense_block_layers e (2 * outw) hm 1 p nrm\<rparr>"
    and "\<not> size_violation (2 * outw) hm 1" and "k nn = k'"
proof -
  from assms obtain g1 g2 w m where
    w: "int_ok (2 * outw) = Inr w" and m: "MLP_new e w hm 1 p nrm = Inr m"
    and nn: "nn = \<lparr>gatconv1 = g1, gatconv2 = g2, mlp = m, k = k'\<rparr>"
    by (auto simp: NN_new_def ebind_def split: sum.splits)
  from w have "w = 2 * outw"
    by (simp add: int_ok_def split: if_splits)
  with m nn show "NN.mlp nn = \<lparr>model = dense_block_layers e (2 * outw) hm 1 p nrm\<rparr>"
    and "\<not> size_violation (2 * outw) hm 1" and "k nn = k'"
    by (simp_all add: MLP_new_Inr)
qed

text \<open>
  Claim C6, as the code has it.  The constructor of the network has no check
  on \<open>k\<close>: with any \<open>k\<close>, also one below 1, it fails or succeeds as it does for
  \<open>k = 1\<close>, with the same error or the same three blocks, and an object it
  returns stores the \<open>k\<close> it was given.
\<close>

theorem NN_new_any_k:
  "NN_new e n h1 h2 hm out edge p nrm k' =
     (case NN_new e n h1 h2 hm out edge p nrm 1 of
        Inl err \<Rightarrow> Inl err
      | Inr nn \<Rightarrow> Inr (nn\<lparr>k := k'\<rparr>))"
  by (simp add: NN_new_def ebind_def split: sum.splits)

theorem NN_new_k_counterexample:
  "NN_new True 3 [64, 64] [64, 64] [80, 80] 32 3 0 True 0 =
     Inr \<lparr>gatconv1 = \<lparr>GATConv.mlp = \<lparr>model =
              [Linear 30 64, LayerNorm 64, Activation, Linear 64 64, LayerNorm 64, Activation,
               Linear 64 32]\<rparr>\<rparr>,
          gatconv2 = \<lparr>GATConv.mlp = \<lparr>model =
              [Linear 175 64, LayerNorm 64, Activation, Linear 64 64, LayerNorm 64, Activation,
               Linear 64 32]\<rparr>\<rparr>,
          mlp = \<lparr>model =
              [Linear 64 80, LayerNorm 80, Activation, Linear 80 80, LayerNorm 80, Activation,
               Linear 80 1]\<rparr>,
          k = 0\<rparr>"
  by code_simp

lemma conv_loop_eq:
  fixes x :: "('a::semiring_0) tensor"
  assumes "- 2147483647 \<le> k nn" "k nn \<le> 2147483647"
  shows "conv_loop \<theta> nn edge_index node_attr edge_attr edge_weight i x =
         repeat_conv (nat (k nn - 1 - i))
           (\<lambda>embedding. GATConv_forward \<theta> (gatconv2 nn) edge_index embedding edge_attr
                           edge_weight node_attr) x"
  using assms
proof (induction \<theta> nn edge_index node_attr edge_attr edge_weight i x rule: conv_loop.induct)
  case (1 \<theta> nn edge_index node_attr edge_attr edge_weight i x)
  have ok: "int_ok (k nn - 1) = Inr (k nn - 1)"
    using "1.prems" by (simp add: int_ok_def)
  show ?case
  proof (cases "i < k nn - 1")
    case False
    then show ?thesis
      by (subst conv_loop.simps) (simp add: ok)
  next
    case True
    then have suc: "nat (k nn - 1 - i) = Suc (nat (k nn - 1 - (i + 1)))"
      by simp
    show ?thesis
    proof (cases "GATConv_forward \<theta> (gatconv2 nn) edge_index x edge_attr edge_weight node_attr")
      case (Inl err)
      then show ?thesis
        using True by (subst conv_loop.simps) (simp add: ok suc)
    next
      case (Inr y)
      have "conv_loop \<theta> nn edge_index node_attr edge_attr edge_weight (i + 1) y =
            repeat_conv (nat (k nn - 1 - (i + 1)))
              (\<lambda>embedding. GATConv_forward \<theta> (gatconv2 nn) edge_index embedding edge_attr
                              edge_weight node_attr) y"
        using ok True Inr "1.prems" by (intro "1.IH") simp_all
      then show ?thesis
        using True Inr by (subst conv_loop.simps) (simp add: ok suc)
    qed
  qed
qed

lemma endpoints_eq:
  assumes "wf_tensor edge_index" "size0 edge_index = 2"
  shows "ebind (select0 edge_index 0) (\<lambda>source_nodes.
         ebind (index_select0 x source_nodes) (\<lambda>node_attr_1.
         ebind (select0 edge_index 1) (\<lambda>target_nodes.
         ebind (index_select0 x target_nodes) (\<lambda>node_attr_2.
         ebind (cat_last [node_attr_1, node_attr_2]) f)))) =
         (if in_range (size0 x) (data edge_index ! 0) \<and> in_range (size0 x) (data edge_index ! 1)
          then f (endpoint_features edge_index x) else Inl IndexError)"
proof -
  define src where "src = data edge_index ! 0"
  define tgt where "tgt = data edge_index ! 1"
  have len: "length src = size1 edge_index" "length tgt = size1 edge_index"
    using assms by (simp_all add: wf_row_length src_def tgt_def)
  have sel: "select0 edge_index 0 = Inr src" "select0 edge_index 1 = Inr tgt"
    using assms(2) by (simp_all add: select0_def src_def tgt_def)
  have rows: "map (\<lambda>i. map (\<lambda>i. data x ! nat i) src ! i @ map (\<lambda>i. data x ! nat i) tgt ! i)
                [0..<size1 edge_index] =
              map (\<lambda>e. data x ! nat (src ! e) @ data x ! nat (tgt ! e)) [0..<size1 edge_index]"
    using len by simp
  have ef: "endpoint_features edge_index x =
            \<lparr>size0 = size1 edge_index, size1 = size1 x + size1 x,
             data = map (\<lambda>e. data x ! nat (src ! e) @ data x ! nat (tgt ! e))
                      [0..<size1 edge_index]\<rparr>"
    by (simp add: endpoint_features_def src_def tgt_def)
  show ?thesis
    unfolding sel src_def [symmetric] tgt_def [symmetric] ef
    using len
    by (simp add: ebind_def index_select0_def in_range_def cat_last_two rows)
qed

lemma NN_forward_eq_spec:
  fixes node_attr :: "('a::semiring_0) tensor"
  assumes "- 2147483647 \<le> k nn" "k nn \<le> 2147483647"
    and "wf_tensor edge_index" "size0 edge_index = 2"
  shows "NN_forward \<theta>1 \<theta>2 \<theta>3 nn edge_index node_attr edge_attr edge_weight =
         NN_forward_spec \<theta>1 \<theta>2 \<theta>3 nn edge_index node_attr edge_attr edge_weight"
  unfolding NN_forward_def NN_forward_spec_def endpoints_eq [OF assms(3,4)]
    conv_loop_eq [OF assms(1,2)]
  by (simp add: ebind_def split: sum.splits)

text \<open>
  Claim C5.  For \<open>1 \<le> k\<close>, on an edge list of two rows, \<open>NN_forward\<close> is the
  computation the specification describes: \<open>gatconv1\<close> once with the node
  features also as initial features; then \<open>k - 1\<close> rounds of the one
  \<open>gatconv2\<close>, each on the running embedding and with the original node
  features as initial features; then, for every edge, the embedding of its
  source followed by the embedding of its target, given to the reducer.  With
  \<open>k = 1\<close> the result does not depend on \<open>gatconv2\<close>.  The result of a
  constructed network has one row for every edge and one column.
\<close>

theorem NN_forward_structure:
  fixes node_attr :: "('a::semiring_0) tensor"
  assumes "1 \<le> k nn" and "k nn \<le> 2147483647"
    and "wf_tensor edge_index" and "size0 edge_index = 2"
  shows "NN_forward \<theta>1 \<theta>2 \<theta>3 nn edge_index node_attr edge_attr edge_weight =
           NN_forward_spec \<theta>1 \<theta>2 \<theta>3 nn edge_index node_attr edge_attr edge_weight
       \<and> (k nn = 1 \<longrightarrow>
            NN_forward \<theta>1 \<theta>2' \<theta>3 (nn\<lparr>gatconv2 := g'\<rparr>) edge_index node_attr edge_attr
              edge_weight =
            NN_forward \<theta>1 \<theta>2 \<theta>3 nn edge_index node_attr edge_attr edge_weight)
       \<and> (NN_new end_identity node_width hidden_sizes_1 hidden_sizes_2 hidden_sizes_mlp
              output_node_width edge_width dropout_prob use_normalization k' = Inr nn \<longrightarrow>
            (\<forall>out. NN_forward \<theta>1 \<theta>2 \<theta>3 nn edge_index node_attr edge_attr edge_weight =
                     Inr out \<longrightarrow>
                   size0 out = size1 edge_index \<and> size1 out = 1))"
proof -
  have spec: "NN_forward \<theta>1 \<theta> \<theta>3 nn' edge_index node_attr edge_attr edge_weight =
              NN_forward_spec \<theta>1 \<theta> \<theta>3 nn' edge_index node_attr edge_attr edge_weight"
    if "k nn' = k nn" for \<theta> :: "'a params" and nn'
    using that assms by (intro NN_forward_eq_spec) simp_all
  have one: "NN_forward \<theta>1 \<theta>2' \<theta>3 (nn\<lparr>gatconv2 := g'\<rparr>) edge_index node_attr edge_attr
               edge_weight =
             NN_forward \<theta>1 \<theta>2 \<theta>3 nn edge_index node_attr edge_attr edge_weight"
    if "k nn = 1"
    using that by (simp add: spec NN_forward_spec_def split: sum.splits)
  have shape: "size0 out = size1 edge_index \<and> size1 out = 1"
    if new: "NN_new end_identity node_width hidden_sizes_1 hidden_sizes_2 hidden_sizes_mlp
               output_node_width edge_width dropout_prob use_normalization k' = Inr nn"
      and out: "NN_forward \<theta>1 \<theta>2 \<theta>3 nn edge_index node_attr edge_attr edge_weight = Inr out"
    for out
  proof -
    from out obtain embedding where
      "MLP_forward \<theta>3 (NN.mlp nn) (endpoint_features edge_index embedding) = Inr out"
      by (auto simp: spec NN_forward_spec_def split: sum.splits if_splits)
    moreover have "length (data (endpoint_features edge_index embedding)) =
                   size0 (endpoint_features edge_index embedding)"
      by (simp add: endpoint_features_def)
    ultimately have "size0 out = size0 (endpoint_features edge_index embedding) \<and>
                     size1 out = nat 1"
      unfolding NN_new_Inr(1) [OF new]
      by (intro MLP_forward_result_shape [OF NN_new_Inr(2) [OF new]])
    then show ?thesis
      by (simp add: endpoint_features_def)
  qed
  show ?thesis
  proof (intro conjI impI allI)
    show "NN_forward \<theta>1 \<theta>2 \<theta>3 nn edge_index node_attr edge_attr edge_weight =
          NN_forward_spec \<theta>1 \<theta>2 \<theta>3 nn edge_index node_attr edge_attr edge_weight"
      by (rule spec) simp
  qed (use one shape in blast)+
qed

theorem NN_forward_structure_witness:
  "NN_new True 2 [3] [3] [3] 4 1 0 True 2 = Inr (ex_net 2) \<and>
   NN_forward ex_params ex_params ex_params (ex_net 2) ex_edge_index ex_node_attr ex_edge_attr
     ex_edge_weight =
     Inr \<lparr>size0 = 3, size1 = 1, data = [[1378428192], [1629046728], [1629046728]]\<rparr> \<and>
   NN_forward ex_params ex_params ex_params (ex_net 1) ex_edge_index ex_node_attr ex_edge_attr
     ex_edge_weight =
     Inr \<lparr>size0 = 3, size1 = 1, data = [[1405512], [1218888], [1218888]]\<rparr>"
proof -
  have "NN_new True 2 [3] [3] [3] 4 1 0 True 2 = Inr (ex_net 2)"
    "NN_forward_spec ex_params ex_params ex_params (ex_net 2) ex_edge_index ex_node_attr
       ex_edge_attr ex_edge_weight =
     Inr \<lparr>size0 = 3, size1 = 1, data = [[1378428192], [1629046728], [1629046728]]\<rparr>"
    "NN_forward_spec ex_params ex_params ex_params (ex_net 1) ex_edge_index ex_node_attr
       ex_edge_attr ex_edge_weight =
     Inr \<lparr>size0 = 3, size1 = 1, data = [[1405512], [1218888], [1218888]]\<rparr>"
    by code_simp+
  moreover have ei: "wf_tensor ex_edge_index" "size0 ex_edge_index = 2"
    using ex_graph_shapes by (simp_all add: graph_shapes_def)
  have k2: "1 \<le> k (ex_net 2)" "k (ex_net 2) \<le> 2147483647"
    and k1: "1 \<le> k (ex_net 1)" "k (ex_net 1) \<le> 2147483647"
    by (simp_all add: ex_net_def)
  note NN_forward_structure [of "ex_net 2" ex_edge_index ex_params ex_params ex_params
      ex_node_attr ex_edge_attr ex_edge_weight, THEN conjunct1, OF k2 ei]
    NN_forward_structure [of "ex_net 1" ex_edge_index ex_params ex_params ex_params
      ex_node_attr ex_edge_attr ex_edge_weight, THEN conjunct1, OF k1 ei]
  ultimately show ?thesis
    by simp
qed

section \<open>The order of the edges\<close>

lemma is_permutation_mset: "is_permutation p n \<Longrightarrow> mset p = mset [0..<n]"
  by (metis is_permutation_def mset_sort)

lemma is_permutation_length: "is_permutation p n \<Longrightarrow> length p = n"
  by (metis is_permutation_def length_sort length_upt diff_zero)

lemma is_permutation_less: "is_permutation p n \<Longrightarrow> e \<in> set p \<Longrightarrow> e < n"
  by (metis is_permutation_mset mset_eq_setD atLeastLessThan_iff set_upt)

lemma vec_sum_mset:
  fixes vs :: "('a::semiring_0) list list"
  assumes "mset vs = mset vs'" and "list_all (\<lambda>v. length v = w) vs"
  shows "vec_sum w vs = vec_sum w vs'"
proof (rule nth_equalityI)
  have all': "list_all (\<lambda>v. length v = w) vs'"
    using assms by (metis list_all_iff mset_eq_setD)
  show "length (vec_sum w vs) = length (vec_sum w vs')"
    using assms(2) all' by (simp add: vec_sum_length)
  fix j assume "j < length (vec_sum w vs)"
  then have j: "j < w"
    using assms(2) by (simp add: vec_sum_length)
  have "sum_list (map (\<lambda>v. v ! j) vs) = sum_mset (image_mset (\<lambda>v. v ! j) (mset vs))"
    by (metis mset_map sum_mset_sum_list)
  also have "\<dots> = sum_list (map (\<lambda>v. v ! j) vs')"
    unfolding assms(1) by (metis mset_map sum_mset_sum_list)
  finally show "vec_sum w vs ! j = vec_sum w vs' ! j"
    using j assms(2) all' by (simp add: vec_sum_def foldl_map2_nth)
qed

lemma permuted_filter:
  "map (\<lambda>e. map g p ! e) (filter (\<lambda>e. P (map f p ! e)) [0..<length p]) =
   map g (filter (\<lambda>e. P (f e)) p)"
proof -
  have "map (\<lambda>e. map g p ! e) (filter (\<lambda>e. P (map f p ! e)) [0..<length (map f p)]) =
        map snd (filter (\<lambda>q. P (fst q)) (zip (map f p) (map g p)))"
    by (rule filtered_zip [symmetric]) simp
  also have "zip (map f p) (map g p) = map (\<lambda>x. (f x, g x)) p"
    by (induction p) simp_all
  also have "map snd (filter (\<lambda>q. P (fst q)) (map (\<lambda>x. (f x, g x)) p)) =
             map g (filter (\<lambda>e. P (f e)) p)"
    by (simp add: filter_map o_def)
  finally show ?thesis
    by simp
qed

lemma scatter_sum_permuted:
  fixes messages :: "('a::semiring_0) tensor"
  assumes wf: "wf_tensor messages" and n: "size0 messages = n" "length target = n"
    and p: "is_permutation p n"
  shows "scatter_sum (map (\<lambda>e. target ! e) p) (permute_rows p messages) num_nodes =
         scatter_sum target messages num_nodes"
proof -
  have row: "vec_sum (size1 messages)
               (map (\<lambda>e. map (\<lambda>e. data messages ! e) p ! e)
                  (filter (\<lambda>e. map (\<lambda>e. target ! e) p ! e = int v) [0..<n])) =
             vec_sum (size1 messages)
               (map (\<lambda>e. data messages ! e) (filter (\<lambda>e. target ! e = int v) [0..<n]))" for v
  proof -
    have "mset (map (\<lambda>e. data messages ! e) (filter (\<lambda>e. target ! e = int v) p)) =
          mset (map (\<lambda>e. data messages ! e) (filter (\<lambda>e. target ! e = int v) [0..<n]))"
      using is_permutation_mset [OF p] by (metis mset_filter mset_map)
    moreover have "list_all (\<lambda>r. length r = size1 messages)
                     (map (\<lambda>e. data messages ! e) (filter (\<lambda>e. target ! e = int v) p))"
      using wf n is_permutation_less [OF p]
      by (auto simp: list_all_iff wf_tensor_def)
    ultimately have "vec_sum (size1 messages)
                       (map (\<lambda>e. data messages ! e) (filter (\<lambda>e. target ! e = int v) p)) =
                     vec_sum (size1 messages)
                       (map (\<lambda>e. data messages ! e)
                          (filter (\<lambda>e. target ! e = int v) [0..<n]))"
      by (rule vec_sum_mset)
    then show ?thesis
      using permuted_filter [of "\<lambda>e. data messages ! e" p "\<lambda>t. t = int v"
                               "\<lambda>e. target ! e"]
      by (simp only: is_permutation_length [OF p])
  qed
  show ?thesis
    using n is_permutation_length [OF p]
    by (simp add: scatter_sum_def permute_rows_def row)
qed

lemma permute_cols_two_rows:
  assumes "wf_tensor ei" "size0 ei = 2" "is_permutation p (size1 ei)"
  shows "data (permute_cols p ei) ! 0 = map (\<lambda>e. data ei ! 0 ! e) p"
    and "data (permute_cols p ei) ! 1 = map (\<lambda>e. data ei ! 1 ! e) p"
    and "size0 (permute_cols p ei) = 2" and "size1 (permute_cols p ei) = size1 ei"
    and "wf_tensor (permute_cols p ei)"
proof -
  obtain r0 r1 where d: "data ei = [r0, r1]"
    using two_rows [OF assms(1,2)] by blast
  have "data (permute_cols p ei) =
        [map (\<lambda>e. data ei ! 0 ! e) p, map (\<lambda>e. data ei ! 1 ! e) p]"
    by (simp add: permute_cols_def d)
  then show "data (permute_cols p ei) ! 0 = map (\<lambda>e. data ei ! 0 ! e) p"
    and "data (permute_cols p ei) ! 1 = map (\<lambda>e. data ei ! 1 ! e) p"
    by simp_all
  show "size0 (permute_cols p ei) = 2" "size1 (permute_cols p ei) = size1 ei"
    using assms(2) is_permutation_length [OF assms(3)] by (simp_all add: permute_cols_def)
  show "wf_tensor (permute_cols p ei)"
    using assms(1) by (simp add: permute_cols_def wf_tensor_def list_all_iff)
qed

lemma permute_rows_wf:
  assumes "wf_tensor t" "is_permutation p (size0 t)"
  shows "wf_tensor (permute_rows p t)" and "size0 (permute_rows p t) = size0 t"
    and "size1 (permute_rows p t) = size1 t"
  using assms is_permutation_less [OF assms(2)] is_permutation_length [OF assms(2)]
  by (auto simp: permute_rows_def wf_tensor_def list_all_iff)

lemma graph_shapes_permuted:
  assumes "graph_shapes ei ea ew" "is_permutation p (size1 ei)"
  shows "graph_shapes (permute_cols p ei) (permute_rows p ea) (permute_rows p ew)"
proof -
  have ei: "wf_tensor ei" "size0 ei = 2"
    and ea: "wf_tensor ea" "is_permutation p (size0 ea)"
    and ew: "wf_tensor ew" "is_permutation p (size0 ew)" "size1 ew = 1"
    using assms by (simp_all add: graph_shapes_def)
  show ?thesis
    using assms(1) permute_cols_two_rows(3,4,5) [OF ei assms(2)]
      permute_rows_wf [OF ea] permute_rows_wf [OF ew(1,2)]
    by (simp add: graph_shapes_def)
qed

lemma in_range_permuted:
  assumes "in_range N idx" "is_permutation p (length idx)"
  shows "in_range N (map (\<lambda>e. idx ! e) p)"
  using assms(1) is_permutation_less [OF assms(2)]
  by (auto simp: in_range_def list_all_iff)

lemma nodes_ok_permuted:
  assumes "wf_tensor ei" "size0 ei = 2" "is_permutation p (size1 ei)" "nodes_ok ei x"
  shows "nodes_ok (permute_cols p ei) x"
proof -
  have "is_permutation p (length (data ei ! 0))" "is_permutation p (length (data ei ! 1))"
    using assms(1-3) by (simp_all add: wf_row_length)
  moreover have "in_range (size0 x) (data ei ! 0)" "in_range (size0 x) (data ei ! 1)"
    using assms(4) by (simp_all add: nodes_ok_def)
  ultimately have "in_range (size0 x) (map (\<lambda>e. data ei ! 0 ! e) p)"
    "in_range (size0 x) (map (\<lambda>e. data ei ! 1 ! e) p)"
    by (simp_all add: in_range_permuted)
  then show ?thesis
    unfolding nodes_ok_def permute_cols_two_rows(1,2) [OF assms(1-3)]
    using assms(4) by (simp add: nodes_ok_def)
qed

lemma message_spec_permuted:
  fixes x :: "('a::semiring_0) tensor"
  assumes ei: "wf_tensor ei" "size0 ei = 2" and p: "is_permutation p (size1 ei)"
  shows "message_spec (permute_cols p ei) x (permute_rows p ea) (permute_rows p ew) hop =
         permute_rows p (message_spec ei x ea ew hop)"
proof -
  define F where "F = (\<lambda>e. let node_attr_j = data x ! nat (data ei ! 0 ! e)
                            in map (\<lambda>v. data ew ! e ! 0 * v)
                                 (if hop = 1 then node_attr_j @ data ea ! e else node_attr_j))"
  have len: "length p = size1 ei"
    using p by (rule is_permutation_length)
  have lhs: "data (message_spec (permute_cols p ei) x (permute_rows p ea) (permute_rows p ew) hop) =
             map F p"
    by (rule nth_equalityI)
       (simp_all add: message_spec_def permute_cols_two_rows(1,4) [OF ei p] len
          permute_rows_def F_def Let_def)
  have rhs: "data (permute_rows p (message_spec ei x ea ew hop)) = map F p"
    using is_permutation_less [OF p]
    by (simp add: permute_rows_def message_spec_def F_def Let_def)
  show ?thesis
    using lhs rhs len
    by (simp add: message_spec_def permute_rows_def permute_cols_def)
qed

lemma aggregate_permuted:
  fixes ms :: "('a::semiring_0) tensor"
  assumes ei: "wf_tensor ei" "size0 ei = 2" and p: "is_permutation p (size1 ei)"
    and ms: "wf_tensor ms" "size0 ms = size1 ei"
    and rng: "in_range N (data ei ! 1)"
  shows "aggregate (permute_cols p ei) (permute_rows p ms) (int N) = aggregate ei ms (int N)"
proof -
  have lt: "length (data ei ! 1) = size1 ei"
    using ei by (simp add: wf_row_length)
  have p': "is_permutation p (size0 ms)"
    using p ms(2) by simp
  have "aggregate (permute_cols p ei) (permute_rows p ms) (int N) =
        Inr (scatter_sum (data (permute_cols p ei) ! 1) (permute_rows p ms) (int N))"
    using permute_cols_two_rows [OF ei p] permute_rows_wf [OF ms(1) p'] ms(2) rng lt p
    by (intro aggregate_eq) (simp_all add: in_range_permuted in_range_def [symmetric])
  also have "\<dots> = Inr (scatter_sum (data ei ! 1) ms (int N))"
    unfolding permute_cols_two_rows(2) [OF ei p] scatter_sum_permuted [OF ms lt p]
    by (rule refl)
  also have "\<dots> = aggregate ei ms (int N)"
    using ei ms rng by (intro aggregate_eq [symmetric]) (simp_all add: in_range_def)
  finally show ?thesis .
qed

lemma propagate_permuted:
  fixes x :: "('a::semiring_0) tensor"
  assumes g: "graph_shapes ei ea ew" and n: "nodes_ok ei x"
    and p: "is_permutation p (size1 ei)"
  shows "propagate (permute_cols p ei) x (permute_rows p ea) (permute_rows p ew) hop =
         propagate ei x ea ew hop"
proof -
  have ei: "wf_tensor ei" "size0 ei = 2" and ea: "hop = 1 \<longrightarrow> wf_tensor ea \<and> size0 ea = size1 ei"
    using g by (simp_all add: graph_shapes_def)
  have x: "wf_tensor x" "in_range (size0 x) (data ei ! 0)"
    using n by (simp_all add: nodes_ok_def)
  have lt: "length (data ei ! 1) = size1 ei"
    using ei by (simp add: wf_row_length)
  have wfm: "wf_tensor (message_spec ei x ea ew hop)"
    using ei x ea by (rule message_spec_wf)
  have sm: "size0 (message_spec ei x ea ew hop) = size1 ei"
    by (simp add: message_spec_def)
  show ?thesis
    unfolding propagate_eq [OF graph_shapes_permuted [OF g p] nodes_ok_permuted [OF ei p n]]
      propagate_eq [OF g n] message_spec_permuted [OF ei p]
      permute_cols_two_rows(2) [OF ei p]
    using scatter_sum_permuted [OF wfm sm lt p] by simp
qed

lemma flip0_permuted:
  "flip0 (permute_cols p ei) = permute_cols p (flip0 ei)"
  by (simp add: flip0_def permute_cols_def rev_map)

lemma GATConv_forward_permuted:
  fixes node_attr :: "('a::semiring_0) tensor"
  assumes g: "graph_shapes ei ea ew" and n: "nodes_ok ei node_attr"
    and p: "is_permutation p (size1 ei)"
  shows "GATConv_forward \<theta> gc (permute_cols p ei) node_attr (permute_rows p ea)
           (permute_rows p ew) initial_node_attr =
         GATConv_forward \<theta> gc ei node_attr ea ew initial_node_attr"
proof -
  have ei: "wf_tensor ei" "size0 ei = 2"
    using g by (simp_all add: graph_shapes_def)
  have g': "graph_shapes (flip0 ei) ea ew"
    using g by (rule graph_shapes_flip0)
  have n': "nodes_ok (flip0 ei) node_attr"
    using ei n by (rule nodes_ok_flip0)
  have p': "is_permutation p (size1 (flip0 ei))"
    using p by (simp add: flip0_rows(3) [OF ei])
  from propagate_result [OF g n, of 1] obtain ohi
    where ohi: "propagate ei node_attr ea ew 1 = Inr ohi"
      "wf_tensor ohi" "size0 ohi = size0 node_attr"
    by auto
  from propagate_result [OF g' n', of 1] obtain oho
    where oho: "propagate (flip0 ei) node_attr ea ew 1 = Inr oho"
      "wf_tensor oho" "size0 oho = size0 node_attr"
    by auto
  have n2: "nodes_ok ei ohi"
    using n ohi(2,3) by (rule nodes_ok_same_rows)
  have n2': "nodes_ok (flip0 ei) oho"
    using n' oho(2,3) by (rule nodes_ok_same_rows)
  have e1: "propagate (permute_cols p ei) node_attr (permute_rows p ea) (permute_rows p ew) 1 =
            Inr ohi"
    using propagate_permuted [OF g n p, of 1] ohi(1) by simp
  have e2: "propagate (permute_cols p (flip0 ei)) node_attr (permute_rows p ea)
              (permute_rows p ew) 1 = Inr oho"
    using propagate_permuted [OF g' n' p', of 1] oho(1) by simp
  have e3: "propagate (permute_cols p ei) ohi (permute_rows p ea) (permute_rows p ew) 2 =
            propagate ei ohi ea ew 2"
    using g n2 p by (rule propagate_permuted)
  have e4: "propagate (permute_cols p (flip0 ei)) oho (permute_rows p ea)
              (permute_rows p ew) 2 = propagate (flip0 ei) oho ea ew 2"
    using g' n2' p' by (rule propagate_permuted)
  show ?thesis
    unfolding GATConv_forward_def Let_def flip0_permuted e1 e2 ohi(1) oho(1) ebind_Inr e3 e4
    by (rule refl)
qed

text \<open>
  Claim C4.  On a graph with consistent shapes and indices, listing the
  edges in another order (the columns of the edge list, the rows of the edge
  features and the rows of the edge weights permuted alike) changes neither
  what \<open>aggregate\<close> returns on the messages, nor what \<open>propagate\<close> returns at
  any hop, nor what \<open>GATConv_forward\<close> returns.  The arithmetic is exact.
\<close>

theorem edge_order_invariance:
  fixes node_attr :: "('a::semiring_0) tensor"
  assumes "graph_shapes edge_index edge_attr edge_weight"
    and "nodes_ok edge_index node_attr"
    and "is_permutation p (size1 edge_index)"
  shows "(\<forall>messages :: 'a tensor.
            wf_tensor messages \<and> size0 messages = size1 edge_index \<longrightarrow>
            aggregate (permute_cols p edge_index) (permute_rows p messages)
              (int (size0 node_attr)) =
            aggregate edge_index messages (int (size0 node_attr)))
       \<and> propagate (permute_cols p edge_index) node_attr (permute_rows p edge_attr)
           (permute_rows p edge_weight) hop =
         propagate edge_index node_attr edge_attr edge_weight hop
       \<and> GATConv_forward \<theta> g (permute_cols p edge_index) node_attr (permute_rows p edge_attr)
           (permute_rows p edge_weight) initial_node_attr =
         GATConv_forward \<theta> g edge_index node_attr edge_attr edge_weight initial_node_attr"
proof (intro conjI allI impI)
  fix messages :: "'a tensor"
  assume "wf_tensor messages \<and> size0 messages = size1 edge_index"
  then show "aggregate (permute_cols p edge_index) (permute_rows p messages)
               (int (size0 node_attr)) =
             aggregate edge_index messages (int (size0 node_attr))"
    using assms by (intro aggregate_permuted) (simp_all add: graph_shapes_def nodes_ok_def)
next
  show "propagate (permute_cols p edge_index) node_attr (permute_rows p edge_attr)
          (permute_rows p edge_weight) hop =
        propagate edge_index node_attr edge_attr edge_weight hop"
    using assms by (rule propagate_permuted)
next
  show "GATConv_forward \<theta> g (permute_cols p edge_index) node_attr (permute_rows p edge_attr)
          (permute_rows p edge_weight) initial_node_attr =
        GATConv_forward \<theta> g edge_index node_attr edge_attr edge_weight initial_node_attr"
    using assms by (rule GATConv_forward_permuted)
qed

theorem edge_order_invariance_witness:
  "permute_cols [2, 0, 1] ex_edge_index =
     \<lparr>size0 = 2, size1 = 3, data = [[1, 0, 1], [2, 1, 2]]\<rparr> \<and>
   permute_rows [2, 0, 1] ex_edge_attr = \<lparr>size0 = 3, size1 = 1, data = [[30], [10], [20]]\<rparr> \<and>
   permute_rows [2, 0, 1] ex_edge_weight = \<lparr>size0 = 3, size1 = 1, data = [[1], [2], [3]]\<rparr> \<and>
   propagate (permute_cols [2, 0, 1] ex_edge_index) ex_node_attr
     (permute_rows [2, 0, 1] ex_edge_attr) (permute_rows [2, 0, 1] ex_edge_weight) 1 =
     propagate ex_edge_index ex_node_attr ex_edge_attr ex_edge_weight 1 \<and>
   GATConv_forward ex_params ex_conv (permute_cols [2, 0, 1] ex_edge_index) ex_node_attr
     (permute_rows [2, 0, 1] ex_edge_attr) (permute_rows [2, 0, 1] ex_edge_weight) ex_node_attr =
     GATConv_forward ex_params ex_conv ex_edge_index ex_node_attr ex_edge_attr ex_edge_weight
       ex_node_attr"
proof -
  have "permute_cols [2, 0, 1] ex_edge_index =
          \<lparr>size0 = 2, size1 = 3, data = [[1, 0, 1], [2, 1, 2]]\<rparr>"
    "permute_rows [2, 0, 1] ex_edge_attr = \<lparr>size0 = 3, size1 = 1, data = [[30], [10], [20]]\<rparr>"
    "permute_rows [2, 0, 1] ex_edge_weight = \<lparr>size0 = 3, size1 = 1, data = [[1], [2], [3]]\<rparr>"
    "is_permutation [2, 0, 1] (size1 ex_edge_index)"
    by code_simp+
  then show ?thesis
    using edge_order_invariance [OF ex_graph_shapes ex_nodes_ok, of "[2, 0, 1]" 1 ex_params
        ex_conv ex_node_attr]
    by simp
qed

end
